theory Spec2Isabelle
  imports Complex_Main "HOL-Library.Sublist"
begin

section \<open>JavaScript strings\<close>

text \<open>
  A JavaScript string is a sequence of UTF-16 code units. The model uses
  \<^typ>\<open>string\<close>, reading a \<^typ>\<open>char\<close> as the code unit of the same number, so it
  covers the strings whose code units are below 256 (ASCII and Latin-1); \<open>length\<close> is
  the \<open>.length\<close> of the source.

  \<open>String.prototype.toLowerCase\<close> maps each such code unit on its own: the letters
  \<open>A\<close>..\<open>Z\<close> and the Latin-1 capitals (192..222 without the multiplication sign 215)
  move up by 32, every other code unit stays.
\<close>

definition lower_char :: "char \<Rightarrow> char" where
  "lower_char c =
     (let n = (of_char c :: nat)
      in if (65 \<le> n \<and> n \<le> 90) \<or> (192 \<le> n \<and> n \<le> 222 \<and> n \<noteq> 215)
         then char_of (n + 32) else c)"

definition toLowerCase :: "string \<Rightarrow> string" where
  "toLowerCase s = map lower_char s"

text \<open>\<open>t.includes(p)\<close>: \<open>p\<close> occurs in \<open>t\<close> as a contiguous run.\<close>

definition str_includes :: "string \<Rightarrow> string \<Rightarrow> bool" where
  "str_includes t p = sublist p t"

text \<open>
  \<open>String.prototype.trim\<close> removes white space and line terminators from both ends.
  Below 256 these are the code units 9 to 13, 32 and 160.
\<close>

definition is_space :: "char \<Rightarrow> bool" where
  "is_space c = (let n = (of_char c :: nat) in (9 \<le> n \<and> n \<le> 13) \<or> n = 32 \<or> n = 160)"

definition trim :: "string \<Rightarrow> string" where
  "trim s = rev (dropWhile is_space (rev (dropWhile is_space s)))"

text \<open>A string is truthy when it is not empty; \<open>undefined\<close> (\<open>None\<close>) is falsy.\<close>

fun truthy_str :: "string option \<Rightarrow> bool" where
  "truthy_str None = False"
| "truthy_str (Some s) = (s \<noteq> [])"

text \<open>\<open>a || b\<close> on optional strings with a string default.\<close>

fun or_else :: "string option \<Rightarrow> string \<Rightarrow> string" where
  "or_else None d = d"
| "or_else (Some s) d = (if s = [] then d else s)"

section \<open>Device type classification\<close>

text \<open>
  \<open>mapType\<close> of \<open>src/index.js\<close>: the label is lower-cased, then the tests run in source
  order and the first that holds returns. \<open>(humanType || '')\<close> is the identity on
  strings.
\<close>

definition mapType :: "string \<Rightarrow> string" where
  "mapType humanType =
     (let t = toLowerCase humanType
      in if str_includes t ''light'' \<or> str_includes t ''bulb'' then ''lightbulb''
         else if str_includes t ''switch'' then ''switch''
         else if str_includes t ''outlet'' then ''outlet''
         else if str_includes t ''thermostat'' then ''thermostat''
         else if str_includes t ''lock'' then ''lock''
         else if str_includes t ''fan'' then ''fan''
         else if str_includes t ''window'' \<or> str_includes t ''blind''
                 \<or> str_includes t ''covering'' then ''blinds''
         else if str_includes t ''garage'' then ''garage''
         else if str_includes t ''motion'' then ''motion''
         else if str_includes t ''temperature'' then ''sensor''
         else if str_includes t ''humidity'' then ''sensor''
         else if str_includes t ''contact'' then ''sensor''
         else if str_includes t ''camera'' then ''camera''
         else ''other'')"

text \<open>
  The classification as the specification words it: an ordered table of
  (substrings, canonical type) pairs, the first row with a matching substring wins,
  and \<open>other\<close> is the fallback.
\<close>

definition type_table :: "(string list \<times> string) list" where
  "type_table =
     [([''light'', ''bulb''], ''lightbulb''),
      ([''switch''], ''switch''),
      ([''outlet''], ''outlet''),
      ([''thermostat''], ''thermostat''),
      ([''lock''], ''lock''),
      ([''fan''], ''fan''),
      ([''window'', ''blind'', ''covering''], ''blinds''),
      ([''garage''], ''garage''),
      ([''motion''], ''motion''),
      ([''temperature'', ''humidity'', ''contact''], ''sensor''),
      ([''camera''], ''camera'')]"

fun first_match :: "(string list \<times> string) list \<Rightarrow> string \<Rightarrow> string" where
  "first_match [] t = ''other''"
| "first_match ((subs, ty) # rows) t =
     (if list_ex (str_includes t) subs then ty else first_match rows t)"

section \<open>JavaScript values\<close>

text \<open>
  Numbers are IEEE doubles. The functions modelled here only compare and select them
  (\<open>Math.min\<close>, \<open>Math.max\<close>, truthiness), which is exact, so a finite double is
  modelled by the real number it denotes; \<open>NaN\<close> and the two infinities are kept
  apart.
\<close>

datatype jsnum = NaN | NegInf | Fin real | PosInf

text \<open>
  The values of a parsed JSON body, and \<open>undefined\<close> for a missing member. \<open>JObj\<close>
  lists the own properties of an object that \<open>JSON.parse\<close> built: its prototype is
  \<open>Object.prototype\<close> and none of its own properties is a function. \<open>JBuiltin\<close> is
  an object of the runtime that no JSON text denotes, by name: \<open>Object\<close> (the
  function) and \<open>Object.prototype\<close>; such a value is never an input, it can only be
  what a lookup in a plain object inherits.
\<close>

datatype jsval =
    JUndefined
  | JNull
  | JBool bool
  | JNum jsnum
  | JStr string
  | JArr "jsval list"
  | JObj "(string \<times> jsval) list"
  | JBuiltin string

text \<open>The error a conversion or a member access throws.\<close>

datatype js_error = TypeError

section \<open>Catalog normalization\<close>

text \<open>
  A service record of the hub's snapshot, with the members \<open>parseAccessories\<close> reads.
  A missing member is \<open>None\<close>. The member \<open>type\<close> of a characteristic is named
  \<open>char_type\<close>.
\<close>

record accessoryInformation =
  Name :: "string option"
  Manufacturer :: "string option"
  Model :: "string option"

record characteristic =
  char_type :: string
  canWrite :: bool

record service =
  serviceName :: "string option"
  accessoryInformation :: "accessoryInformation option"
  humanType :: "string option"
  type :: "string option"
  uniqueId :: "string option"
  serviceCharacteristics :: "characteristic list option"
  "values" :: "(string \<times> jsval) list option"

text \<open>The device object pushed by \<open>parseAccessories\<close>; its members carry the prefix \<open>dev_\<close>.\<close>

record device =
  dev_id :: string
  dev_name :: string
  dev_type :: string
  dev_humanType :: string
  dev_state :: "(string \<times> jsval) list"
  dev_characteristics :: "string list"
  dev_manufacturer :: string
  dev_model :: string

definition ACCESSORY_NAME :: string where
  "ACCESSORY_NAME = ''OpenClawAPI''"

text \<open>\<open>svc.accessoryInformation?.f\<close>\<close>

definition info_member ::
  "(accessoryInformation \<Rightarrow> string option) \<Rightarrow> service \<Rightarrow> string option" where
  "info_member f svc = (case accessoryInformation svc of None \<Rightarrow> None | Some i \<Rightarrow> f i)"

text \<open>\<open>const name = svc.serviceName || svc.accessoryInformation?.Name || ''\<close>\<close>

definition svc_name :: "service \<Rightarrow> string" where
  "svc_name svc =
     (if truthy_str (serviceName svc) then the (serviceName svc)
      else or_else (info_member Name svc) [])"

text \<open>\<open>const type = svc.humanType || svc.type || 'Unknown'\<close>\<close>

definition svc_type :: "service \<Rightarrow> string" where
  "svc_type svc =
     (if truthy_str (humanType svc) then the (humanType svc)
      else or_else (type svc) ''Unknown'')"

text \<open>The object built for a record that is kept (its \<open>uniqueId\<close> is truthy there).\<close>

definition device_of :: "service \<Rightarrow> device" where
  "device_of svc =
     (let chars = (case serviceCharacteristics svc of None \<Rightarrow> [] | Some cs \<Rightarrow> cs);
          writableChars = map char_type (filter canWrite chars)
      in \<lparr> dev_id = or_else (uniqueId svc) [],
           dev_name = svc_name svc,
           dev_type = mapType (svc_type svc),
           dev_humanType = svc_type svc,
           dev_state = (case values svc of None \<Rightarrow> [] | Some vs \<Rightarrow> vs),
           dev_characteristics = writableChars,
           dev_manufacturer = or_else (info_member Manufacturer svc) [],
           dev_model = or_else (info_member Model svc) [] \<rparr>)"

text \<open>
  The loop of \<open>parseAccessories\<close>, with the array \<open>devices\<close> as accumulator: the two
  \<open>continue\<close> statements skip a record, otherwise its device is pushed.
\<close>

fun parse_loop :: "service list \<Rightarrow> device list \<Rightarrow> device list" where
  "parse_loop [] devices = devices"
| "parse_loop (svc # rest) devices =
     (if \<not> truthy_str (uniqueId svc) \<or> svc_type svc = ''AccessoryInformation''
          \<or> svc_type svc = ''ProtocolInformation''
      then parse_loop rest devices
      else if toLowerCase (svc_name svc) = ''openclaw api''
      then parse_loop rest devices
      else parse_loop rest (devices @ [device_of svc]))"

text \<open>\<open>raw\<close> is \<open>None\<close> when the snapshot is not an array.\<close>

definition parseAccessories :: "service list option \<Rightarrow> device list" where
  "parseAccessories raw =
     (let list = (case raw of None \<Rightarrow> [] | Some l \<Rightarrow> l) in parse_loop list [])"

text \<open>
  The filter as the specification words it, with the registered name
  \<^const>\<open>ACCESSORY_NAME\<close> as the gateway's own name.
\<close>

definition spec_dropped :: "service \<Rightarrow> bool" where
  "spec_dropped svc =
     (\<not> truthy_str (uniqueId svc)
      \<or> svc_type svc \<in> {''AccessoryInformation'', ''ProtocolInformation''}
      \<or> toLowerCase (svc_name svc) = toLowerCase ACCESSORY_NAME)"

text \<open>The filter the code applies: the name is compared with the literal of the source.\<close>

definition dropped :: "service \<Rightarrow> bool" where
  "dropped svc =
     (\<not> truthy_str (uniqueId svc)
      \<or> svc_type svc \<in> {''AccessoryInformation'', ''ProtocolInformation''}
      \<or> toLowerCase (svc_name svc) = toLowerCase ''OpenClaw API'')"

section \<open>Action resolution\<close>

text \<open>
  Two conversions of the language are not written out: parsing a string as a number
  (\<open>Number(s)\<close> for a string \<open>s\<close>) and printing a number (\<open>String(n)\<close>). The model
  takes them as parameters.
\<close>

record builtins =
  StringToNumber :: "string \<Rightarrow> jsnum"
  NumberToString :: "jsnum \<Rightarrow> string"

text \<open>\<open>Boolean(v)\<close>, which is also the test of \<open>v ? a : b\<close> and of \<open>!v\<close>.\<close>

fun ToBoolean :: "jsval \<Rightarrow> bool" where
  "ToBoolean JUndefined = False"
| "ToBoolean JNull = False"
| "ToBoolean (JBool b) = b"
| "ToBoolean (JNum n) = (n \<noteq> NaN \<and> n \<noteq> Fin 0)"
| "ToBoolean (JStr s) = (s \<noteq> [])"
| "ToBoolean (JArr xs) = True"
| "ToBoolean (JObj fs) = True"
| "ToBoolean (JBuiltin name) = True"

fun join_comma :: "string list \<Rightarrow> string" where
  "join_comma [] = []"
| "join_comma [s] = s"
| "join_comma (s # t # ts) = s @ '','' @ join_comma (t # ts)"

text \<open>
  \<open>String(v)\<close>, which is also the conversion of \<open>${v}\<close> in a template literal. It
  throws \<open>TypeError\<close> (\<open>Inl\<close>) for an object with an own property \<open>toString\<close>: that
  property is not a function, and the inherited \<open>valueOf\<close> returns the object itself.
  Any other parsed object prints as \<open>[object Object]\<close>. An array prints its elements
  separated by commas, \<open>null\<close> and \<open>undefined\<close> elements as the empty string, and
  throws when the conversion of an element throws.
\<close>

fun ToString :: "builtins \<Rightarrow> jsval \<Rightarrow> js_error + string"
  and ToString_elements :: "builtins \<Rightarrow> jsval list \<Rightarrow> js_error + string list" where
  "ToString B JUndefined = Inr ''undefined''"
| "ToString B JNull = Inr ''null''"
| "ToString B (JBool b) = Inr (if b then ''true'' else ''false'')"
| "ToString B (JNum n) = Inr (NumberToString B n)"
| "ToString B (JStr s) = Inr s"
| "ToString B (JArr xs) =
     (case ToString_elements B xs of Inl e \<Rightarrow> Inl e | Inr ss \<Rightarrow> Inr (join_comma ss))"
| "ToString B (JObj fs) =
     (if ''toString'' \<in> set (map fst fs) then Inl TypeError else Inr ''[object Object]'')"
| "ToString B (JBuiltin name) =
     Inr (if name = ''Object'' then ''function Object() { [native code] }''
          else ''[object Object]'')"
| "ToString_elements B [] = Inr []"
| "ToString_elements B (x # xs) =
     (case (if x = JUndefined \<or> x = JNull then Inr [] else ToString B x) of
        Inl e \<Rightarrow> Inl e
      | Inr s \<Rightarrow>
          (case ToString_elements B xs of Inl e \<Rightarrow> Inl e | Inr ss \<Rightarrow> Inr (s # ss)))"

text \<open>
  \<open>Number(v)\<close>: arrays and objects are printed first, then parsed, so it throws where
  \<open>String(v)\<close> throws.
\<close>

fun ToNumber :: "builtins \<Rightarrow> jsval \<Rightarrow> js_error + jsnum" where
  "ToNumber B JUndefined = Inr NaN"
| "ToNumber B JNull = Inr (Fin 0)"
| "ToNumber B (JBool b) = Inr (if b then Fin 1 else Fin 0)"
| "ToNumber B (JNum n) = Inr n"
| "ToNumber B (JStr s) = Inr (StringToNumber B s)"
| "ToNumber B v =
     (case ToString B v of Inl e \<Rightarrow> Inl e | Inr s \<Rightarrow> Inr (StringToNumber B s))"

text \<open>\<open>Math.min\<close> and \<open>Math.max\<close> of two numbers: \<open>NaN\<close> if either is \<open>NaN\<close>.\<close>

fun Math_min :: "jsnum \<Rightarrow> jsnum \<Rightarrow> jsnum" where
  "Math_min NaN y = NaN"
| "Math_min x NaN = NaN"
| "Math_min NegInf y = NegInf"
| "Math_min x NegInf = NegInf"
| "Math_min PosInf y = y"
| "Math_min x PosInf = x"
| "Math_min (Fin a) (Fin b) = Fin (min a b)"

fun Math_max :: "jsnum \<Rightarrow> jsnum \<Rightarrow> jsnum" where
  "Math_max NaN y = NaN"
| "Math_max x NaN = NaN"
| "Math_max PosInf y = PosInf"
| "Math_max x PosInf = PosInf"
| "Math_max NegInf y = y"
| "Math_max x NegInf = x"
| "Math_max (Fin a) (Fin b) = Fin (max a b)"

text \<open>\<open>function clamp(v, min, max) { return Math.max(min, Math.min(max, Number(v))); }\<close>\<close>

definition clamp :: "builtins \<Rightarrow> jsval \<Rightarrow> real \<Rightarrow> real \<Rightarrow> js_error + jsnum" where
  "clamp B v mn mx =
     (case ToNumber B v of
        Inl e \<Rightarrow> Inl e
      | Inr n \<Rightarrow> Inr (Math_max (Fin mn) (Math_min (Fin mx) n)))"

text \<open>
  \<open>const MODE_MAP = { off: 0, heat: 1, cool: 2, auto: 3 }\<close>. \<open>MODE_MAP[key]\<close> finds
  the four own properties and what the object inherits from \<open>Object.prototype\<close>; of
  the inherited names only \<open>constructor\<close> and \<open>__proto__\<close> are in lower case, which is
  all a lower-cased key can match.
\<close>

definition MODE_MAP :: "(string \<times> jsnum) list" where
  "MODE_MAP = [(''off'', Fin 0), (''heat'', Fin 1), (''cool'', Fin 2), (''auto'', Fin 3)]"

definition MODE_MAP_get :: "string \<Rightarrow> jsval" where
  "MODE_MAP_get key =
     (case map_of MODE_MAP key of
        Some n \<Rightarrow> JNum n
      | None \<Rightarrow>
          if key = ''constructor'' then JBuiltin ''Object''
          else if key = ''__proto__'' then JBuiltin ''Object.prototype''
          else JUndefined)"

text \<open>
  \<open>value?.k\<close> for a member name \<open>k\<close> that no built-in prototype defines (\<open>hue\<close>,
  \<open>saturation\<close>, \<open>action\<close>, \<open>value\<close>, \<open>id\<close>, \<open>devices\<close>): \<open>undefined\<close> unless
  \<open>value\<close> is an object with that own property.
\<close>

fun opt_member :: "jsval \<Rightarrow> string \<Rightarrow> jsval" where
  "opt_member (JObj fs) k = (case map_of fs k of None \<Rightarrow> JUndefined | Some v \<Rightarrow> v)"
| "opt_member v k = JUndefined"

text \<open>\<open>x.k\<close> for such a name: reading a member of \<open>null\<close> or \<open>undefined\<close> throws.\<close>

fun member :: "jsval \<Rightarrow> string \<Rightarrow> js_error + jsval" where
  "member JUndefined k = Inl TypeError"
| "member JNull k = Inl TypeError"
| "member v k = Inr (opt_member v k)"

text \<open>A characteristic write \<open>{ characteristicType, value }\<close>.\<close>

record op =
  characteristicType :: string
  "value" :: jsval

text \<open>
  \<open>resolveAction\<close> returns one operation, an array of operations, or \<open>null\<close>
  (\<open>None\<close>), or it throws (\<open>Inl\<close>) when a conversion of the value throws. The
  \<open>switch\<close> compares with \<open>===\<close>, so an action that is not a string reaches
  \<open>default\<close>.
\<close>

datatype resolved = Single op | Several "op list"

definition resolveAction ::
  "builtins \<Rightarrow> jsval \<Rightarrow> jsval \<Rightarrow> js_error + resolved option" where
  "resolveAction B action v =
     (case action of
        JStr a \<Rightarrow>
          if a = ''on'' \<or> a = ''power'' then
            Inr (Some (Single \<lparr>characteristicType = ''On'', value = JBool (ToBoolean v)\<rparr>))
          else if a = ''toggle'' then
            Inr (Some (Single \<lparr>characteristicType = ''On'', value = JBool (ToBoolean v)\<rparr>))
          else if a = ''brightness'' \<or> a = ''dim'' then
            (case clamp B v 0 100 of
               Inl e \<Rightarrow> Inl e
             | Inr n \<Rightarrow>
                 Inr (Some (Single \<lparr>characteristicType = ''Brightness'', value = JNum n\<rparr>)))
          else if a = ''hue'' then
            (case clamp B v 0 360 of
               Inl e \<Rightarrow> Inl e
             | Inr n \<Rightarrow> Inr (Some (Single \<lparr>characteristicType = ''Hue'', value = JNum n\<rparr>)))
          else if a = ''saturation'' then
            (case clamp B v 0 100 of
               Inl e \<Rightarrow> Inl e
             | Inr n \<Rightarrow>
                 Inr (Some (Single \<lparr>characteristicType = ''Saturation'', value = JNum n\<rparr>)))
          else if a = ''color'' then
            (case (if opt_member v ''hue'' \<noteq> JUndefined
                   then (case ToNumber B (opt_member v ''hue'') of
                           Inl e \<Rightarrow> Inl e
                         | Inr h \<Rightarrow> Inr [\<lparr>characteristicType = ''Hue'', value = JNum h\<rparr>])
                   else Inr []) of
               Inl e \<Rightarrow> Inl e
             | Inr ops \<Rightarrow>
                 (case (if opt_member v ''saturation'' \<noteq> JUndefined
                        then (case ToNumber B (opt_member v ''saturation'') of
                                Inl e \<Rightarrow> Inl e
                              | Inr s \<Rightarrow>
                                  Inr (ops @ [\<lparr>characteristicType = ''Saturation'',
                                                 value = JNum s\<rparr>]))
                        else Inr ops) of
                    Inl e \<Rightarrow> Inl e
                  | Inr ops' \<Rightarrow> Inr (Some (Several ops'))))
          else if a = ''colorTemperature'' \<or> a = ''ct'' then
            (case ToNumber B v of
               Inl e \<Rightarrow> Inl e
             | Inr n \<Rightarrow>
                 Inr (Some (Single \<lparr>characteristicType = ''ColorTemperature'',
                                     value = JNum n\<rparr>)))
          else if a = ''targetTemperature'' \<or> a = ''temperature'' then
            (case ToNumber B v of
               Inl e \<Rightarrow> Inl e
             | Inr n \<Rightarrow>
                 Inr (Some (Single \<lparr>characteristicType = ''TargetTemperature'',
                                     value = JNum n\<rparr>)))
          else if a = ''thermostatMode'' \<or> a = ''mode'' then
            (case ToString B v of
               Inl e \<Rightarrow> Inl e
             | Inr s \<Rightarrow>
                 (let found = MODE_MAP_get (toLowerCase s)
                  in if found = JUndefined \<or> found = JNull then
                       (case ToNumber B v of
                          Inl e \<Rightarrow> Inl e
                        | Inr n \<Rightarrow>
                            Inr (Some (Single \<lparr>characteristicType = ''TargetHeatingCoolingState'',
                                                value = JNum n\<rparr>)))
                     else
                       Inr (Some (Single \<lparr>characteristicType = ''TargetHeatingCoolingState'',
                                           value = found\<rparr>))))
          else if a = ''lock'' then
            Inr (Some (Single \<lparr>characteristicType = ''LockTargetState'',
                                value = JNum (if ToBoolean v then Fin 1 else Fin 0)\<rparr>))
          else if a = ''speed'' \<or> a = ''rotationSpeed'' then
            (case clamp B v 0 100 of
               Inl e \<Rightarrow> Inl e
             | Inr n \<Rightarrow>
                 Inr (Some (Single \<lparr>characteristicType = ''RotationSpeed'', value = JNum n\<rparr>)))
          else if a = ''position'' \<or> a = ''targetPosition'' then
            (case clamp B v 0 100 of
               Inl e \<Rightarrow> Inl e
             | Inr n \<Rightarrow>
                 Inr (Some (Single \<lparr>characteristicType = ''TargetPosition'', value = JNum n\<rparr>)))
          else if a = ''tilt'' \<or> a = ''targetTilt'' then
            (case clamp B v (- 90) 90 of
               Inl e \<Rightarrow> Inl e
             | Inr n \<Rightarrow>
                 Inr (Some (Single \<lparr>characteristicType = ''TargetHorizontalTiltAngle'',
                                     value = JNum n\<rparr>)))
          else if a = ''garageDoor'' \<or> a = ''garage'' then
            Inr (Some (Single \<lparr>characteristicType = ''TargetDoorState'',
                                value = JNum (if ToBoolean v then Fin 0 else Fin 1)\<rparr>))
          else Inr None
      | _ \<Rightarrow> Inr None)"

text \<open>
  The range-valued actions as the specification lists them: action name, the
  characteristic written, and the inclusive bound.
\<close>

definition range_actions :: "(string \<times> string \<times> real \<times> real) list" where
  "range_actions =
     [(''brightness'', ''Brightness'', 0, 100),
      (''dim'', ''Brightness'', 0, 100),
      (''hue'', ''Hue'', 0, 360),
      (''saturation'', ''Saturation'', 0, 100),
      (''speed'', ''RotationSpeed'', 0, 100),
      (''rotationSpeed'', ''RotationSpeed'', 0, 100),
      (''position'', ''TargetPosition'', 0, 100),
      (''targetPosition'', ''TargetPosition'', 0, 100),
      (''tilt'', ''TargetHorizontalTiltAngle'', - 90, 90),
      (''targetTilt'', ''TargetHorizontalTiltAngle'', - 90, 90)]"

section \<open>Control routes\<close>

text \<open>
  \<open>setupRoutes(app, apiToken, uiClient)\<close> receives the client of the hub as a
  parameter, and the two control routes only call its \<open>setCharacteristic\<close>. The model
  takes the client's behaviour as a parameter too: \<open>U calls c\<close> is the outcome of the
  call \<open>c\<close> (device id, characteristic, value) after the calls \<open>calls\<close> were made
  before it, either the message of the error it throws (\<open>Inl\<close>) or the JSON value it
  returns (\<open>Inr\<close>). The state threaded through a route is the list of the calls made
  so far, oldest first.
\<close>

type_synonym call = "jsval \<times> string \<times> jsval"

type_synonym upstream = "call list \<Rightarrow> call \<Rightarrow> string + jsval"

text \<open>\<open>await uiClient.setCharacteristic(uniqueId, characteristicType, value)\<close>\<close>

definition uiClient_setCharacteristic ::
  "upstream \<Rightarrow> call list \<Rightarrow> jsval \<Rightarrow> string \<Rightarrow> jsval \<Rightarrow> (string + jsval) \<times> call list" where
  "uiClient_setCharacteristic U calls uid ct v =
     (U calls (uid, ct, v), calls @ [(uid, ct, v)])"

text \<open>An HTTP response: the status and the JSON body (\<open>res.json\<close> alone sends status 200).\<close>

datatype response = Response nat jsval

text \<open>\<open>const ops = Array.isArray(resolved) ? resolved : [resolved]\<close>\<close>

fun ops_of :: "resolved \<Rightarrow> op list" where
  "ops_of (Several ops) = ops"
| "ops_of (Single op) = [op]"

text \<open>
  The loop \<open>for (const op of ops) results.push(await uiClient.setCharacteristic(...))\<close>
  inside \<open>try\<close>: the first call that throws leaves the loop with its message.
\<close>

fun run_ops ::
  "upstream \<Rightarrow> call list \<Rightarrow> jsval \<Rightarrow> op list \<Rightarrow> jsval list
     \<Rightarrow> (string + jsval list) \<times> call list" where
  "run_ops U calls uid [] results = (Inr results, calls)"
| "run_ops U calls uid (op # ops) results =
     (case uiClient_setCharacteristic U calls uid (characteristicType op) (value op) of
        (Inl msg, calls') \<Rightarrow> (Inl msg, calls')
      | (Inr r, calls') \<Rightarrow> run_ops U calls' uid ops (results @ [r]))"

text \<open>
  The handler of \<open>POST /api/devices/:id/control\<close> (\<open>controlOne\<close> in the
  specification), after the bearer check. \<open>ident\<close> is the route parameter \<open>id\<close> and
  \<open>body\<close> is \<open>req.body\<close>; \<open>body_member body k\<close> is the member \<open>k\<close> of
  \<open>req.body || {}\<close>. The call of \<open>resolveAction\<close> and the template literal of the
  message \<open>Unknown action\<close> stand before the \<open>try\<close>: when one of them throws, the
  handler throws (\<open>Inl\<close>) and sends none of its responses.
\<close>

definition body_member :: "jsval \<Rightarrow> string \<Rightarrow> jsval" where
  "body_member body k = opt_member (if ToBoolean body then body else JObj []) k"

definition controlOne ::
  "builtins \<Rightarrow> upstream \<Rightarrow> call list \<Rightarrow> string \<Rightarrow> jsval
     \<Rightarrow> (js_error + response) \<times> call list" where
  "controlOne B U calls ident body =
     (let action = body_member body ''action'';
          v = body_member body ''value''
      in if \<not> ToBoolean action then
           (Inr (Response 400 (JObj [(''error'', JStr ''Bad Request''),
                                     (''message'', JStr ''Missing \"action\".'')])), calls)
         else
           (case resolveAction B action v of
              Inl e \<Rightarrow> (Inl e, calls)
            | Inr None \<Rightarrow>
                (case ToString B action of
                   Inl e \<Rightarrow> (Inl e, calls)
                 | Inr s \<Rightarrow>
                     (Inr (Response 400
                        (JObj [(''error'', JStr ''Bad Request''),
                               (''message'', JStr (''Unknown action: '' @ s @ ''.''))])),
                      calls))
            | Inr (Some resolved) \<Rightarrow>
                (case run_ops U calls (JStr ident) (ops_of resolved) [] of
                   (Inr results, calls') \<Rightarrow>
                     (Inr (Response 200
                        (JObj [(''success'', JBool True), (''id'', JStr ident),
                               (''action'', action), (''results'', JArr results)])),
                      calls')
                 | (Inl msg, calls') \<Rightarrow>
                     (Inr (Response 502
                        (JObj [(''error'', JStr ''Control error''), (''message'', JStr msg)])),
                      calls'))))"

text \<open>
  The body of the loop of \<open>POST /api/devices/control\<close> for one element \<open>item\<close> of the
  array \<open>devices\<close>: the entry it pushes to \<open>results\<close> and the calls made so far. The
  inner loop is \<open>run_ops\<close> with the returned values dropped. Reading \<open>item.action\<close>,
  the call of \<open>resolveAction\<close> and the template literal of the message stand before
  the \<open>try\<close>: when one of them throws, the loop body throws (\<open>Inl\<close>).
\<close>

definition control_item ::
  "builtins \<Rightarrow> upstream \<Rightarrow> call list \<Rightarrow> jsval \<Rightarrow> (js_error + jsval) \<times> call list" where
  "control_item B U calls item =
     (case member item ''action'' of
        Inl e \<Rightarrow> (Inl e, calls)
      | Inr action \<Rightarrow>
          (case resolveAction B action (opt_member item ''value'') of
             Inl e \<Rightarrow> (Inl e, calls)
           | Inr None \<Rightarrow>
               (case ToString B action of
                  Inl e \<Rightarrow> (Inl e, calls)
                | Inr s \<Rightarrow>
                    (Inr (JObj [(''id'', opt_member item ''id''), (''success'', JBool False),
                                (''error'', JStr (''Unknown action: '' @ s))]),
                     calls))
           | Inr (Some resolved) \<Rightarrow>
               (case run_ops U calls (opt_member item ''id'') (ops_of resolved) [] of
                  (Inr rs, calls') \<Rightarrow>
                    (Inr (JObj [(''id'', opt_member item ''id''), (''success'', JBool True)]),
                     calls')
                | (Inl msg, calls') \<Rightarrow>
                    (Inr (JObj [(''id'', opt_member item ''id''), (''success'', JBool False),
                                (''error'', JStr msg)]),
                     calls'))))"

text \<open>
  The loop \<open>for (const item of devices)\<close>: an element whose body throws ends the
  handler, and the elements after it are not reached.
\<close>

fun batch_loop ::
  "builtins \<Rightarrow> upstream \<Rightarrow> call list \<Rightarrow> jsval list \<Rightarrow> jsval list
     \<Rightarrow> (js_error + jsval list) \<times> call list" where
  "batch_loop B U calls [] results = (Inr results, calls)"
| "batch_loop B U calls (item # items) results =
     (case control_item B U calls item of
        (Inl e, calls') \<Rightarrow> (Inl e, calls')
      | (Inr entry, calls') \<Rightarrow> batch_loop B U calls' items (results @ [entry]))"

text \<open>
  The handler of \<open>POST /api/devices/control\<close> (\<open>controlBatch\<close> in the specification),
  after the bearer check.
\<close>

definition controlBatch ::
  "builtins \<Rightarrow> upstream \<Rightarrow> call list \<Rightarrow> jsval \<Rightarrow> (js_error + response) \<times> call list" where
  "controlBatch B U calls body =
     (case body_member body ''devices'' of
        JArr items \<Rightarrow>
          (case batch_loop B U calls items [] of
             (Inl e, calls') \<Rightarrow> (Inl e, calls')
           | (Inr results, calls') \<Rightarrow>
               (Inr (Response 200
                  (JObj [(''success'', JBool True), (''results'', JArr results)])),
                calls'))
      | _ \<Rightarrow>
          (Inr (Response 400 (JObj [(''error'', JStr ''Bad Request''),
                                    (''message'', JStr ''Expected \"devices\" array.'')])),
           calls))"

text \<open>
  The resolution of a batch element returns: the element is neither \<open>null\<close> nor
  \<open>undefined\<close>, \<open>resolveAction\<close> returns for it, and when its action is unknown the
  action can be printed.
\<close>

definition resolution_returns :: "builtins \<Rightarrow> jsval \<Rightarrow> bool" where
  "resolution_returns B item =
     (case member item ''action'' of
        Inl e \<Rightarrow> False
      | Inr action \<Rightarrow>
          (case resolveAction B action (opt_member item ''value'') of
             Inl e \<Rightarrow> False
           | Inr None \<Rightarrow> (case ToString B action of Inl e \<Rightarrow> False | Inr s \<Rightarrow> True)
           | Inr (Some resolved) \<Rightarrow> True))"

text \<open>
  The values that are not objects: \<open>undefined\<close>, \<open>null\<close>, booleans, numbers and
  strings.
\<close>

fun primitive :: "jsval \<Rightarrow> bool" where
  "primitive (JArr xs) = False"
| "primitive (JObj fs) = False"
| "primitive (JBuiltin name) = False"
| "primitive v = True"

text \<open>The call that one operation on the device \<open>uid\<close> makes.\<close>

definition call_of :: "jsval \<Rightarrow> op \<Rightarrow> call" where
  "call_of uid op = (uid, characteristicType op, value op)"

section \<open>The host: files, clock, network and library functions\<close>

text \<open>
  The three files the plugin touches in the storage directory. The token file
  \<open>.openclaw-token\<close> is \<open>Missing\<close> (\<open>existsSync\<close> is false), \<open>Unreadable\<close> (it exists and
  \<open>readFileSync\<close> throws) or has a content. The two JSON documents are read with
  \<open>JSON.parse(readFileSync(...))\<close> inside \<open>try\<close>: \<open>Throws\<close> stands for a missing,
  unreadable or malformed file, \<open>Got\<close> for the parsed document.
\<close>

datatype file_state = Missing | Unreadable | Content string

datatype 'a parsed = Throws | Got 'a

text \<open>A user record of \<open>auth.json\<close>; \<open>admin\<close> is the truthiness of its flag.\<close>

record user =
  username :: "string option"
  admin :: bool

text \<open>\<open>auth.json\<close> parses to an array of user records or to something else.\<close>

datatype users_doc = NotArray | Users "user list"

text \<open>
  \<open>uix_secrets\<close> is the member \<open>secretKey\<close> of the parsed \<open>.uix-secrets\<close> document.
  \<open>token_file_writable\<close> tells whether \<open>writeFileSync\<close> on the token file succeeds; a
  write that succeeds leaves the file with the written content, one that throws leaves
  it as it was.
\<close>

record files =
  token_file :: file_state
  token_file_writable :: bool
  uix_secrets :: "string option parsed"
  auth_json :: "users_doc parsed"

text \<open>The payload of the signed credential.\<close>

record jwt_payload =
  payload_username :: "string option"
  payload_name :: "string option"
  payload_admin :: bool
  payload_instanceId :: "string option"

text \<open>A request sent with \<open>fetch\<close>, and what comes back.\<close>

record request =
  req_method :: string
  req_url :: string
  req_body :: jsval

text \<open>
  The body of a login response that parses: an object whose \<open>access_token\<close>, if present,
  is a string and whose \<open>expires_in\<close>, if present, is a finite number of seconds.
\<close>

record login_data =
  access_token :: "string option"
  expires_in :: "real option"

text \<open>
  A response: its status, the result of \<open>res.text()\<close> (\<open>None\<close> when it rejects) and the
  result of \<open>res.json()\<close> (\<open>Inl\<close> the message when it rejects).
\<close>

record http_response =
  status :: nat
  text_body :: "string option"
  json_body :: "string + login_data"

datatype fetch_result = Rejected string | Responded http_response

text \<open>
  What the code takes from its host and its libraries, as parameters of the model:
  \<open>Date_now k\<close> is the \<open>k\<close>-th reading of \<open>Date.now()\<close> in milliseconds; \<open>fetch sent r\<close>
  is the outcome of the request \<open>r\<close> after the requests \<open>sent\<close>;
  \<open>createHmac_sha256_hex key data\<close> is
  \<open>createHmac('sha256', key).update(data).digest('hex')\<close>; \<open>createHash_sha256_hex data\<close>
  is \<open>createHash('sha256').update(data).digest('hex')\<close>; \<open>jwt_sign payload key t\<close> is
  \<open>jwt.sign(payload, key, { expiresIn: '8h' })\<close> issued at the clock reading \<open>t\<close>.
\<close>

record host =
  Date_now :: "nat \<Rightarrow> real"
  fetch :: "request list \<Rightarrow> request \<Rightarrow> fetch_result"
  createHmac_sha256_hex :: "string \<Rightarrow> string \<Rightarrow> string"
  createHash_sha256_hex :: "string \<Rightarrow> string"
  jwt_sign :: "jwt_payload \<Rightarrow> string \<Rightarrow> real \<Rightarrow> string"

text \<open>The mutable part of the host: how often the clock was read, and the requests sent.\<close>

record world =
  clock_reads :: nat
  sent :: "request list"

definition read_clock :: "host \<Rightarrow> world \<Rightarrow> real \<times> world" where
  "read_clock H w = (Date_now H (clock_reads w), w\<lparr>clock_reads := Suc (clock_reads w)\<rparr>)"

section \<open>Inbound token resolution\<close>

text \<open>
  \<open>resolveApiToken(config, storagePath, log)\<close>. \<open>env\<close> is
  \<open>process.env.OPENCLAW_HB_TOKEN\<close>, \<open>config_token\<close> is \<open>config.token\<close> and \<open>F\<close> holds the
  files under \<open>storagePath\<close>. The result is the object \<open>{ token, source }\<close> as a pair,
  with the files as the call leaves them. Log lines are not modelled.
\<close>

text \<open>The seed of layer 4: the secret key if it can be read and is truthy, else the default.\<close>

definition seed_key :: "files \<Rightarrow> string" where
  "seed_key F =
     (let secretKey = ''openclaw-default-seed''
      in case uix_secrets F of
           Throws \<Rightarrow> secretKey
         | Got k \<Rightarrow> if truthy_str k then the k else secretKey)"

definition resolveApiToken ::
  "host \<Rightarrow> string option \<Rightarrow> string option \<Rightarrow> files \<Rightarrow> (string \<times> string) \<times> files" where
  "resolveApiToken H env config_token F =
     (if truthy_str env then ((the env, ''env''), F)
      else
        (let from_file =
               (case token_file F of
                  Missing \<Rightarrow> None
                | Unreadable \<Rightarrow> None
                | Content c \<Rightarrow>
                    (let fileToken = trim c
                     in if length fileToken \<ge> 16 then Some fileToken else None))
         in case from_file of
              Some fileToken \<Rightarrow> ((fileToken, ''file''), F)
            | None \<Rightarrow>
                if truthy_str config_token \<and> length (the config_token) \<ge> 8
                then ((the config_token, ''config''), F)
                else
                  (let generated =
                         take 48 (createHmac_sha256_hex H (seed_key F) ''openclaw-hb-api-token'');
                       F' = (if token_file_writable F
                             then F\<lparr>token_file := Content (generated @ [CHR 0x0A])\<rparr>
                             else F)
                   in ((generated, ''auto''), F'))))"

text \<open>
  The four layers as the specification words them: what each source supplies, if
  anything.
\<close>

definition layer_env :: "string option \<Rightarrow> string option" where
  "layer_env env = (case env of None \<Rightarrow> None | Some t \<Rightarrow> if t = [] then None else Some t)"

definition layer_file :: "files \<Rightarrow> string option" where
  "layer_file F =
     (case token_file F of
        Content c \<Rightarrow> if 16 \<le> length (trim c) then Some (trim c) else None
      | _ \<Rightarrow> None)"

definition layer_config :: "string option \<Rightarrow> string option" where
  "layer_config config_token =
     (case config_token of None \<Rightarrow> None | Some t \<Rightarrow> if 8 \<le> length t then Some t else None)"

definition layer_generated :: "host \<Rightarrow> files \<Rightarrow> string" where
  "layer_generated H F =
     take 48 (createHmac_sha256_hex H
        (case uix_secrets F of Got (Some k) \<Rightarrow> if k = [] then ''openclaw-default-seed'' else k
                             | _ \<Rightarrow> ''openclaw-default-seed'')
        ''openclaw-hb-api-token'')"

text \<open>A hexadecimal SHA-256 digest: 64 characters out of \<open>0\<close>..\<open>9\<close>, \<open>a\<close>..\<open>f\<close>.\<close>

definition hex_digest :: "string \<Rightarrow> bool" where
  "hex_digest s = (length s = 64 \<and> set s \<subseteq> set ''0123456789abcdef'')"

text \<open>The property of the library that the generated token relies on.\<close>

definition hmac_ok :: "host \<Rightarrow> bool" where
  "hmac_ok H = (\<forall>key data. hex_digest (createHmac_sha256_hex H key data))"

text \<open>A host for the examples: a clock that advances by a second per reading, an unreachable
  hub, and constant digests.\<close>

definition example_host :: host where
  "example_host =
     \<lparr> Date_now = (\<lambda>k. 1000 * real k),
       fetch = (\<lambda>s r. Rejected ''unreachable''),
       createHmac_sha256_hex = (\<lambda>key data. replicate 64 (CHR ''a'')),
       createHash_sha256_hex = (\<lambda>data. replicate 64 (CHR ''b'')),
       jwt_sign = (\<lambda>p key t. ''signed'') \<rparr>"

section \<open>The client of the hub's management API\<close>

text \<open>
  The fields of \<open>UiClient\<close> that its methods use (\<open>storagePath\<close> is the directory of
  \<^typ>\<open>files\<close>, \<open>log\<close> is not modelled). \<open>None\<close> is \<open>null\<close> or \<open>undefined\<close>.
\<close>

record UiClient =
  baseUrl :: string
  uiUser :: "string option"
  uiPass :: "string option"
  jwt :: "string option"
  jwtExpires :: real
  secretKey :: "string option"
  adminUser :: "string option"
  instanceId :: "string option"
  authMode :: string

definition DEFAULT_UI_URL :: string where
  "DEFAULT_UI_URL = ''http://localhost:8581''"

text \<open>\<open>x || null\<close> on an optional string.\<close>

definition or_null :: "string option \<Rightarrow> string option" where
  "or_null x = (if truthy_str x then x else None)"

text \<open>\<open>s.replace(/\\/+$/, '')\<close>: the trailing slashes are removed.\<close>

definition strip_trailing_slashes :: "string \<Rightarrow> string" where
  "strip_trailing_slashes s = rev (dropWhile (\<lambda>c. c = CHR ''/'') (rev s))"

text \<open>\<open>_detectAuthMode()\<close>: the two \<open>try\<close> blocks, then the choice of the mode.\<close>

definition UiClient_detectAuthMode :: "host \<Rightarrow> files \<Rightarrow> UiClient \<Rightarrow> UiClient" where
  "UiClient_detectAuthMode H F this =
     (let this1 =
            (case uix_secrets F of
               Throws \<Rightarrow> this
             | Got k \<Rightarrow>
                 if truthy_str k
                 then this\<lparr>secretKey := k,
                           instanceId := Some (createHash_sha256_hex H (the k))\<rparr>
                 else this);
          this2 =
            (case auth_json F of
               Throws \<Rightarrow> this1
             | Got users \<Rightarrow>
                 (let found = (case users of Users us \<Rightarrow> find admin us | NotArray \<Rightarrow> None)
                  in case found of
                       None \<Rightarrow> this1
                     | Some u \<Rightarrow> this1\<lparr>adminUser := username u\<rparr>))
      in if truthy_str (secretKey this2) \<and> truthy_str (adminUser this2)
         then this2\<lparr>authMode := ''jwt-direct''\<rparr>
         else if truthy_str (uiUser this2) \<and> truthy_str (uiPass this2)
         then this2\<lparr>authMode := ''login''\<rparr>
         else this2)"

text \<open>The constructor \<open>new UiClient({ storagePath, uiUrl, uiUser, uiPass, log })\<close>.\<close>

definition UiClient_new ::
  "host \<Rightarrow> files \<Rightarrow> string option \<Rightarrow> string option \<Rightarrow> string option \<Rightarrow> UiClient" where
  "UiClient_new H F url usr pass =
     UiClient_detectAuthMode H F
       \<lparr> baseUrl = strip_trailing_slashes (or_else url DEFAULT_UI_URL),
         uiUser = or_null usr,
         uiPass = or_null pass,
         jwt = None,
         jwtExpires = 0,
         secretKey = None,
         adminUser = None,
         instanceId = None,
         authMode = ''none'' \<rparr>"

text \<open>\<open>_signJwt()\<close>, with the clock reading of the library as issue time.\<close>

definition UiClient_signJwt :: "host \<Rightarrow> UiClient \<Rightarrow> world \<Rightarrow> string \<times> world" where
  "UiClient_signJwt H this w =
     (let payload = \<lparr> payload_username = adminUser this,
                       payload_name = adminUser this,
                       payload_admin = True,
                       payload_instanceId = instanceId this \<rparr>;
          (t, w') = read_clock H w
      in (jwt_sign H payload (or_else (secretKey this) []) t, w'))"

text \<open>The decimal numeral of a status code, as the template literal prints it.\<close>

function dec :: "nat \<Rightarrow> string" where
  "dec n = (if n < 10 then [char_of (48 + n)] else dec (n div 10) @ [char_of (48 + n mod 10)])"
  by pat_completeness auto
termination
  by (relation "measure id") auto

text \<open>
  \<open>_loginAuth()\<close>: one request to the hub; a rejected \<open>fetch\<close>, a status outside
  200..299 and a body that does not parse throw. \<open>Inl\<close> is the message of the error.
\<close>

definition UiClient_loginAuth ::
  "host \<Rightarrow> UiClient \<Rightarrow> world \<Rightarrow> (string + unit) \<times> UiClient \<times> world" where
  "UiClient_loginAuth H this w =
     (let req = \<lparr> req_method = ''POST'',
                   req_url = baseUrl this @ ''/api/auth/login'',
                   req_body = JObj [(''username'', JStr (or_else (uiUser this) [])),
                                    (''password'', JStr (or_else (uiPass this) [])),
                                    (''otp'', JStr [])] \<rparr>;
          w1 = w\<lparr>sent := sent w @ [req]\<rparr>
      in case fetch H (sent w) req of
           Rejected msg \<Rightarrow> (Inl msg, this, w1)
         | Responded res \<Rightarrow>
             if \<not> (200 \<le> status res \<and> status res \<le> 299) then
               (let text = (case text_body res of None \<Rightarrow> [] | Some t \<Rightarrow> t)
                in (Inl (''Config UI login failed ('' @ dec (status res) @ ''): '' @ text),
                    this, w1))
             else
               (case json_body res of
                  Inl msg \<Rightarrow> (Inl msg, this, w1)
                | Inr data \<Rightarrow>
                    (let (t, w2) = read_clock H w1;
                         e = (case expires_in data of
                                None \<Rightarrow> 28800
                              | Some x \<Rightarrow> if x = 0 then 28800 else x)
                     in (Inr (),
                         this\<lparr>jwt := access_token data, jwtExpires := t + (e - 60) * 1000\<rparr>,
                         w2))))"

text \<open>
  \<open>token()\<close>. \<open>Inl\<close> is the message of the error thrown, \<open>Inr\<close> the value of
  \<open>this.jwt\<close> returned. The test \<open>!this.jwt || Date.now() >= this.jwtExpires\<close> reads the
  clock only when \<open>this.jwt\<close> is truthy.
\<close>

definition needs_refresh :: "host \<Rightarrow> UiClient \<Rightarrow> world \<Rightarrow> bool \<times> world" where
  "needs_refresh H this w =
     (if \<not> truthy_str (jwt this) then (True, w)
      else (let (t, w') = read_clock H w in (t \<ge> jwtExpires this, w')))"

definition UiClient_token ::
  "host \<Rightarrow> UiClient \<Rightarrow> world \<Rightarrow> (string + string option) \<times> UiClient \<times> world" where
  "UiClient_token H this w =
     (if authMode this = ''jwt-direct'' then
        (let (refresh, w1) = needs_refresh H this w
         in if refresh then
              (let (signed, w2) = UiClient_signJwt H this w1;
                   (t, w3) = read_clock H w2;
                   this' = this\<lparr>jwt := Some signed, jwtExpires := t + 7 * 3600 * 1000\<rparr>
               in (Inr (jwt this'), this', w3))
            else (Inr (jwt this), this, w1))
      else if authMode this = ''login'' then
        (let (refresh, w1) = needs_refresh H this w
         in if refresh then
              (case UiClient_loginAuth H this w1 of
                 (Inl msg, this', w2) \<Rightarrow> (Inl msg, this', w2)
               | (Inr u, this', w2) \<Rightarrow> (Inr (jwt this'), this', w2))
            else (Inr (jwt this), this, w1))
      else (Inl ''No authentication method available for Config UI X.'', this, w))"

text \<open>
  What the secret material offers, as the specification words it: the shared secret
  key of the secrets document, and the username of the first administrator of the users
  document.
\<close>

definition shared_secret :: "files \<Rightarrow> string option" where
  "shared_secret F = (case uix_secrets F of Got (Some k) \<Rightarrow> if k = [] then None else Some k
                                           | _ \<Rightarrow> None)"

definition admin_username :: "files \<Rightarrow> string option" where
  "admin_username F =
     (case auth_json F of
        Got (Users us) \<Rightarrow>
          (case find admin us of
             Some u \<Rightarrow> (case username u of Some n \<Rightarrow> if n = [] then None else Some n
                                          | None \<Rightarrow> None)
           | None \<Rightarrow> None)
      | _ \<Rightarrow> None)"

section \<open>Properties of the catalog\<close>

lemma lower_char_light: "map lower_char ''light'' = ''light''"
  by (simp add: lower_char_def)

lemma includes_lower:
  assumes "str_includes h p" and "map lower_char p = p"
  shows "str_includes (toLowerCase h) p"
proof -
  from assms(1) obtain ps ss where "h = ps @ p @ ss"
    by (auto simp: str_includes_def sublist_def)
  then have "toLowerCase h = map lower_char ps @ p @ map lower_char ss"
    by (simp add: toLowerCase_def assms(2))
  then show ?thesis
    by (simp add: str_includes_def)
qed

lemma mapType_table: "mapType h = first_match type_table (toLowerCase h)"
  by (simp add: mapType_def type_table_def Let_def)

lemma mapType_light: "str_includes h ''light'' \<Longrightarrow> mapType h = ''lightbulb''"
  using includes_lower [OF _ lower_char_light] by (simp add: mapType_def Let_def)

text \<open>
  Claim C7. For every type label, \<open>mapType\<close> is the first-match evaluation of the fixed
  ordered table of substring tests (light/bulb, switch, outlet, thermostat, lock, fan,
  window/blind/covering, garage, motion, temperature/humidity/contact, camera, else
  other) on the lower-cased label; and every label that contains both \<open>light\<close> and
  \<open>switch\<close> is classified as \<open>lightbulb\<close>.
\<close>

theorem mapType_first_match:
  "mapType h = first_match type_table (toLowerCase h)
   \<and> (str_includes h ''light'' \<and> str_includes h ''switch'' \<longrightarrow> mapType h = ''lightbulb'')"
  using mapType_table [of h] mapType_light [of h] by blast

theorem mapType_first_match_witness:
  "str_includes ''light switch'' ''light'' \<and> str_includes ''light switch'' ''switch''
   \<and> mapType ''light switch'' = ''lightbulb''
   \<and> first_match type_table (toLowerCase ''light switch'') = ''lightbulb''"
proof -
  have a: "str_includes ''light switch'' ''light''"
    by code_simp
  have b: "str_includes ''light switch'' ''switch''"
    by code_simp
  from mapType_first_match [of "''light switch''"] a b show ?thesis
    by metis
qed

lemma lower_literal: "toLowerCase ''OpenClaw API'' = ''openclaw api''"
  by code_simp

lemma parse_loop_filter:
  "parse_loop raw devices = devices @ map device_of (filter (\<lambda>svc. \<not> dropped svc) raw)"
  by (induction raw arbitrary: devices) (auto simp: dropped_def lower_literal)

text \<open>
  Claim C6, as stated, fails. A record with an id, the type \<open>Switch\<close> and the display
  name \<open>OpenClawAPI\<close>, which is the registered name \<^const>\<open>ACCESSORY_NAME\<close>, meets the
  claim's condition for being dropped, yet \<open>parseAccessories\<close> keeps it: the code
  compares the lower-cased name with the literal \<open>openclaw api\<close>.
\<close>

theorem parseAccessories_keeps_registered_name:
  "spec_dropped \<lparr>serviceName = Some ''OpenClawAPI'', accessoryInformation = None,
       humanType = Some ''Switch'', type = Some ''Switch'', uniqueId = Some ''abc'',
       serviceCharacteristics = None, values = None\<rparr>
   \<and> parseAccessories (Some [\<lparr>serviceName = Some ''OpenClawAPI'', accessoryInformation = None,
       humanType = Some ''Switch'', type = Some ''Switch'', uniqueId = Some ''abc'',
       serviceCharacteristics = None, values = None\<rparr>]) \<noteq> []"
  by (simp add: spec_dropped_def parseAccessories_def svc_name_def svc_type_def
      toLowerCase_def lower_char_def ACCESSORY_NAME_def)

text \<open>
  Claim C6, amended. \<open>parseAccessories\<close> drops a record if and only if its id is
  missing or empty, or its type label (\<open>humanType\<close>, else \<open>type\<close>, else \<open>Unknown\<close>) is
  \<open>AccessoryInformation\<close> or \<open>ProtocolInformation\<close>, or its display name equals
  \<open>OpenClaw API\<close> up to case; every other record yields its device, in input order.
  A snapshot that is not an array yields no device.
\<close>

theorem parseAccessories_filter:
  "parseAccessories (Some raw) = map device_of (filter (\<lambda>svc. \<not> dropped svc) raw)
   \<and> parseAccessories None = []"
  by (simp add: parseAccessories_def parse_loop_filter)

theorem parseAccessories_filter_witness:
  "parseAccessories (Some
     [\<lparr>serviceName = Some ''Lamp'', accessoryInformation = None, humanType = None,
        type = Some ''Lightbulb'', uniqueId = None, serviceCharacteristics = None,
        values = None\<rparr>,
      \<lparr>serviceName = Some ''Info'', accessoryInformation = None, humanType = None,
        type = Some ''AccessoryInformation'', uniqueId = Some ''a1'',
        serviceCharacteristics = None, values = None\<rparr>,
      \<lparr>serviceName = Some ''OPENCLAW api'', accessoryInformation = None, humanType = None,
        type = Some ''Switch'', uniqueId = Some ''a2'', serviceCharacteristics = None,
        values = None\<rparr>,
      \<lparr>serviceName = Some ''Lamp'', accessoryInformation = None,
        humanType = Some ''Lightbulb'', type = None, uniqueId = Some ''a3'',
        serviceCharacteristics = Some [\<lparr>char_type = ''On'', canWrite = True\<rparr>,
                                       \<lparr>char_type = ''Name'', canWrite = False\<rparr>],
        values = None\<rparr>])
   = [\<lparr>dev_id = ''a3'', dev_name = ''Lamp'', dev_type = ''lightbulb'',
        dev_humanType = ''Lightbulb'', dev_state = [], dev_characteristics = [''On''],
        dev_manufacturer = [], dev_model = []\<rparr>]"
proof -
  have low: "toLowerCase ''OPENCLAW api'' = ''openclaw api''" "toLowerCase ''Lamp'' = ''lamp''"
    by code_simp+
  have ty: "mapType ''Lightbulb'' = ''lightbulb''"
    by code_simp
  show ?thesis
    unfolding conjunct1 [OF parseAccessories_filter]
    by (simp add: dropped_def device_of_def svc_name_def svc_type_def info_member_def
        low lower_literal ty)
qed

section \<open>Properties of action resolution\<close>

lemma clamp_Fin:
  "lo \<le> hi \<Longrightarrow> clamp B (JNum (Fin x)) lo hi = Inr (Fin (max lo (min hi x)))"
  by (simp add: clamp_def)

lemma clamp_PosInf: "lo \<le> hi \<Longrightarrow> clamp B (JNum PosInf) lo hi = Inr (Fin hi)"
  by (simp add: clamp_def)

lemma clamp_NegInf: "lo \<le> hi \<Longrightarrow> clamp B (JNum NegInf) lo hi = Inr (Fin lo)"
  by (simp add: clamp_def)

lemma clamp_bounded:
  assumes "lo \<le> hi" and "n \<noteq> NaN"
  shows "\<exists>r. clamp B (JNum n) lo hi = Inr (Fin r) \<and> lo \<le> r \<and> r \<le> hi
           \<and> (\<forall>x. n = Fin x \<longrightarrow>
                 (lo \<le> x \<and> x \<le> hi \<longrightarrow> r = x) \<and> (x < lo \<longrightarrow> r = lo) \<and> (hi < x \<longrightarrow> r = hi))
           \<and> (n = NegInf \<longrightarrow> r = lo) \<and> (n = PosInf \<longrightarrow> r = hi)"
proof (cases n)
  case NaN
  with assms show ?thesis by simp
next
  case NegInf
  with assms show ?thesis by (simp add: clamp_NegInf)
next
  case (Fin x)
  with assms show ?thesis by (auto simp: clamp_Fin)
next
  case PosInf
  with assms show ?thesis by (simp add: clamp_PosInf)
qed

lemma range_actions_cases:
  assumes "(a, ct, lo, hi) \<in> set range_actions"
  shows
    "a = ''brightness'' \<and> ct = ''Brightness'' \<and> lo = 0 \<and> hi = 100
     \<or> a = ''dim'' \<and> ct = ''Brightness'' \<and> lo = 0 \<and> hi = 100
     \<or> a = ''hue'' \<and> ct = ''Hue'' \<and> lo = 0 \<and> hi = 360
     \<or> a = ''saturation'' \<and> ct = ''Saturation'' \<and> lo = 0 \<and> hi = 100
     \<or> a = ''speed'' \<and> ct = ''RotationSpeed'' \<and> lo = 0 \<and> hi = 100
     \<or> a = ''rotationSpeed'' \<and> ct = ''RotationSpeed'' \<and> lo = 0 \<and> hi = 100
     \<or> a = ''position'' \<and> ct = ''TargetPosition'' \<and> lo = 0 \<and> hi = 100
     \<or> a = ''targetPosition'' \<and> ct = ''TargetPosition'' \<and> lo = 0 \<and> hi = 100
     \<or> a = ''tilt'' \<and> ct = ''TargetHorizontalTiltAngle'' \<and> lo = - 90 \<and> hi = 90
     \<or> a = ''targetTilt'' \<and> ct = ''TargetHorizontalTiltAngle'' \<and> lo = - 90 \<and> hi = 90"
  using assms by (simp add: range_actions_def)

lemma resolveAction_range:
  assumes "(a, ct, lo, hi) \<in> set range_actions"
  shows "resolveAction B (JStr a) v
           = (case clamp B v lo hi of
                Inl e \<Rightarrow> Inl e
              | Inr n \<Rightarrow> Inr (Some (Single \<lparr>characteristicType = ct, value = JNum n\<rparr>)))
         \<and> lo \<le> hi"
  using range_actions_cases [OF assms]
  by (elim disjE conjE; hypsubst; simp add: resolveAction_def)

text \<open>
  Claim C8. For every range-valued action (brightness, dim, hue, saturation, speed,
  rotationSpeed, position, targetPosition, tilt, targetTilt) and every number other
  than \<open>NaN\<close>, \<open>resolveAction\<close> does not reject the input: it returns one operation on
  the action's characteristic whose value is a finite number inside the action's
  inclusive bound, equal to the input when that lies inside, to the lower bound when the
  input is below and to the upper bound when it is above. Brightness 150 resolves to
  100 and brightness -5 to 0.
\<close>

theorem resolveAction_clamps:
  "((a, ct, lo, hi) \<in> set range_actions \<and> n \<noteq> NaN \<longrightarrow>
      (\<exists>r. resolveAction B (JStr a) (JNum n)
              = Inr (Some (Single \<lparr>characteristicType = ct, value = JNum (Fin r)\<rparr>))
            \<and> lo \<le> r \<and> r \<le> hi
            \<and> (\<forall>x. n = Fin x \<longrightarrow>
                  (lo \<le> x \<and> x \<le> hi \<longrightarrow> r = x) \<and> (x < lo \<longrightarrow> r = lo) \<and> (hi < x \<longrightarrow> r = hi))
            \<and> (n = NegInf \<longrightarrow> r = lo) \<and> (n = PosInf \<longrightarrow> r = hi)))
   \<and> resolveAction B (JStr ''brightness'') (JNum (Fin 150))
       = Inr (Some (Single \<lparr>characteristicType = ''Brightness'', value = JNum (Fin 100)\<rparr>))
   \<and> resolveAction B (JStr ''brightness'') (JNum (Fin (- 5)))
       = Inr (Some (Single \<lparr>characteristicType = ''Brightness'', value = JNum (Fin 0)\<rparr>))"
proof -
  have "\<exists>r. resolveAction B (JStr a) (JNum n)
              = Inr (Some (Single \<lparr>characteristicType = ct, value = JNum (Fin r)\<rparr>))
            \<and> lo \<le> r \<and> r \<le> hi
            \<and> (\<forall>x. n = Fin x \<longrightarrow>
                  (lo \<le> x \<and> x \<le> hi \<longrightarrow> r = x) \<and> (x < lo \<longrightarrow> r = lo) \<and> (hi < x \<longrightarrow> r = hi))
            \<and> (n = NegInf \<longrightarrow> r = lo) \<and> (n = PosInf \<longrightarrow> r = hi)"
    if mem: "(a, ct, lo, hi) \<in> set range_actions" and n: "n \<noteq> NaN"
  proof -
    from resolveAction_range [OF mem, of B "JNum n"]
    have eq: "resolveAction B (JStr a) (JNum n)
                = (case clamp B (JNum n) lo hi of
                     Inl e \<Rightarrow> Inl e
                   | Inr n \<Rightarrow> Inr (Some (Single \<lparr>characteristicType = ct, value = JNum n\<rparr>)))"
      and le: "lo \<le> hi"
      by simp_all
    from clamp_bounded [OF le n, of B] obtain r where
      r: "clamp B (JNum n) lo hi = Inr (Fin r)" "lo \<le> r" "r \<le> hi"
         "\<forall>x. n = Fin x \<longrightarrow>
              (lo \<le> x \<and> x \<le> hi \<longrightarrow> r = x) \<and> (x < lo \<longrightarrow> r = lo) \<and> (hi < x \<longrightarrow> r = hi)"
         "n = NegInf \<longrightarrow> r = lo" "n = PosInf \<longrightarrow> r = hi"
      by blast
    show ?thesis
      by (rule exI [of _ r]) (use eq r in simp)
  qed
  moreover have "resolveAction B (JStr ''brightness'') (JNum (Fin 150))
       = Inr (Some (Single \<lparr>characteristicType = ''Brightness'', value = JNum (Fin 100)\<rparr>))"
    by (simp add: resolveAction_def clamp_def)
  moreover have "resolveAction B (JStr ''brightness'') (JNum (Fin (- 5)))
       = Inr (Some (Single \<lparr>characteristicType = ''Brightness'', value = JNum (Fin 0)\<rparr>))"
    by (simp add: resolveAction_def clamp_def)
  ultimately show ?thesis
    by blast
qed

theorem resolveAction_clamps_witness:
  "(''tilt'', ''TargetHorizontalTiltAngle'', - 90, 90) \<in> set range_actions
   \<and> Fin (- 120) \<noteq> NaN
   \<and> (\<exists>r. resolveAction \<lparr>StringToNumber = (\<lambda>s. NaN), NumberToString = (\<lambda>n. ''0'')\<rparr>
             (JStr ''tilt'') (JNum (Fin (- 120)))
           = Inr (Some (Single \<lparr>characteristicType = ''TargetHorizontalTiltAngle'',
                                 value = JNum (Fin r)\<rparr>))
         \<and> r = - 90)"
proof -
  have mem: "(''tilt'', ''TargetHorizontalTiltAngle'', - 90, 90) \<in> set range_actions"
    by (simp add: range_actions_def)
  have n: "Fin (- 120) \<noteq> NaN"
    by simp
  from resolveAction_clamps
         [of "''tilt''" "''TargetHorizontalTiltAngle''" "- 90" 90 "Fin (- 120)"
             "\<lparr>StringToNumber = (\<lambda>s. NaN), NumberToString = (\<lambda>n. ''0'')\<rparr>"]
       mem n
  show ?thesis
    by fastforce
qed



text \<open>
  Claim C10. The action \<open>toggle\<close> is accepted and, for every value, resolves to the same
  single operation as \<open>on\<close> and \<open>power\<close>: the characteristic \<open>On\<close> with the truthiness
  of the value. No device state is an input of the resolver.
\<close>

theorem resolveAction_toggle:
  "resolveAction B (JStr ''toggle'') v = resolveAction B (JStr ''on'') v
   \<and> resolveAction B (JStr ''toggle'') v = resolveAction B (JStr ''power'') v
   \<and> resolveAction B (JStr ''toggle'') v
       = Inr (Some (Single \<lparr>characteristicType = ''On'', value = JBool (ToBoolean v)\<rparr>))"
  by (simp add: resolveAction_def)

theorem resolveAction_toggle_witness:
  "resolveAction \<lparr>StringToNumber = (\<lambda>s. NaN), NumberToString = (\<lambda>n. ''0'')\<rparr>
     (JStr ''toggle'') (JBool False)
   = Inr (Some (Single \<lparr>characteristicType = ''On'', value = JBool False\<rparr>))
   \<and> resolveAction \<lparr>StringToNumber = (\<lambda>s. NaN), NumberToString = (\<lambda>n. ''0'')\<rparr>
     (JStr ''on'') (JBool False)
   = Inr (Some (Single \<lparr>characteristicType = ''On'', value = JBool False\<rparr>))"
  using resolveAction_toggle
          [of "\<lparr>StringToNumber = (\<lambda>s. NaN), NumberToString = (\<lambda>n. ''0'')\<rparr>" "JBool False"]
  by (metis ToBoolean.simps(3))

section \<open>Properties of the control routes\<close>

lemma run_ops_Inr:
  "run_ops U calls uid ops results = (Inr rs, calls') \<Longrightarrow>
     calls' = calls @ map (call_of uid) ops
     \<and> (\<exists>new. rs = results @ new \<and> length new = length ops
            \<and> (\<forall>i<length ops. U (calls @ map (call_of uid) (take i ops)) (call_of uid (ops ! i))
                   = Inr (new ! i)))"
proof (induction ops arbitrary: calls results)
  case Nil
  then show ?case by simp
next
  case (Cons op ops)
  let ?c = "call_of uid op"
  from Cons.prems obtain r where r: "U calls ?c = Inr r"
    and rest: "run_ops U (calls @ [?c]) uid ops (results @ [r]) = (Inr rs, calls')"
    by (auto simp: uiClient_setCharacteristic_def call_of_def split: sum.splits)
  from Cons.IH [OF rest] obtain new where
    c: "calls' = (calls @ [?c]) @ map (call_of uid) ops"
    and n: "rs = (results @ [r]) @ new" "length new = length ops"
    and u: "\<forall>i<length ops. U ((calls @ [?c]) @ map (call_of uid) (take i ops))
              (call_of uid (ops ! i)) = Inr (new ! i)"
    by blast
  have "\<forall>i<length (op # ops). U (calls @ map (call_of uid) (take i (op # ops)))
           (call_of uid ((op # ops) ! i)) = Inr ((r # new) ! i)"
  proof (intro allI impI)
    fix i assume "i < length (op # ops)"
    then show "U (calls @ map (call_of uid) (take i (op # ops)))
           (call_of uid ((op # ops) ! i)) = Inr ((r # new) ! i)"
      using r u by (cases i) simp_all
  qed
  with c n show ?case
    by (intro conjI exI [of _ "r # new"]) simp_all
qed

lemma run_ops_Inl:
  "run_ops U calls uid ops results = (Inl msg, calls') \<Longrightarrow>
     \<exists>k<length ops.
        calls' = calls @ map (call_of uid) (take (Suc k) ops)
        \<and> U (calls @ map (call_of uid) (take k ops)) (call_of uid (ops ! k)) = Inl msg
        \<and> (\<forall>i<k. \<exists>r. U (calls @ map (call_of uid) (take i ops)) (call_of uid (ops ! i)) = Inr r)"
proof (induction ops arbitrary: calls results)
  case Nil
  then show ?case by simp
next
  case (Cons op ops)
  let ?c = "call_of uid op"
  show ?case
  proof (cases "U calls ?c")
    case (Inl e)
    with Cons.prems have "msg = e" "calls' = calls @ [?c]"
      by (auto simp: uiClient_setCharacteristic_def call_of_def)
    with Inl show ?thesis
      by (intro exI [of _ 0]) simp
  next
    case (Inr r)
    with Cons.prems have rest: "run_ops U (calls @ [?c]) uid ops (results @ [r]) = (Inl msg, calls')"
      by (auto simp: uiClient_setCharacteristic_def call_of_def)
    from Cons.IH [OF rest] obtain k where k: "k < length ops"
      and c: "calls' = (calls @ [?c]) @ map (call_of uid) (take (Suc k) ops)"
      and f: "U ((calls @ [?c]) @ map (call_of uid) (take k ops)) (call_of uid (ops ! k)) = Inl msg"
      and u: "\<forall>i<k. \<exists>r. U ((calls @ [?c]) @ map (call_of uid) (take i ops))
                (call_of uid (ops ! i)) = Inr r"
      by blast
    have "\<forall>i<Suc k. \<exists>r. U (calls @ map (call_of uid) (take i (op # ops)))
                (call_of uid ((op # ops) ! i)) = Inr r"
    proof (intro allI impI)
      fix i assume "i < Suc k"
      then show "\<exists>r. U (calls @ map (call_of uid) (take i (op # ops)))
                (call_of uid ((op # ops) ! i)) = Inr r"
        using Inr u by (cases i) simp_all
    qed
    with k c f show ?thesis
      by (intro exI [of _ "Suc k"]) simp
  qed
qed

lemma run_ops_cases:
  obtains rs calls' where "run_ops U calls uid ops results = (Inr rs, calls')"
  | msg calls' where "run_ops U calls uid ops results = (Inl msg, calls')"
  by (cases "run_ops U calls uid ops results") (metis sum.exhaust_sel prod.collapse old.prod.inject sumE)

lemma run_ops_outcome:
  "(\<exists>results. run_ops U calls uid ops [] = (Inr results, calls @ map (call_of uid) ops)
        \<and> length results = length ops
        \<and> (\<forall>i<length ops. U (calls @ map (call_of uid) (take i ops)) (call_of uid (ops ! i))
               = Inr (results ! i)))
   \<or> (\<exists>k<length ops. \<exists>msg.
         (\<forall>i<k. \<exists>x. U (calls @ map (call_of uid) (take i ops)) (call_of uid (ops ! i)) = Inr x)
         \<and> U (calls @ map (call_of uid) (take k ops)) (call_of uid (ops ! k)) = Inl msg
         \<and> run_ops U calls uid ops [] = (Inl msg, calls @ map (call_of uid) (take (Suc k) ops)))"
proof (cases rule: run_ops_cases [of U calls uid ops "[]"])
  case (1 rs calls')
  from run_ops_Inr [OF 1] 1 show ?thesis
    by auto
next
  case (2 msg calls')
  from run_ops_Inl [OF 2] obtain k where "k < length ops"
    "calls' = calls @ map (call_of uid) (take (Suc k) ops)"
    "U (calls @ map (call_of uid) (take k ops)) (call_of uid (ops ! k)) = Inl msg"
    "\<forall>i<k. \<exists>r. U (calls @ map (call_of uid) (take i ops)) (call_of uid (ops ! i)) = Inr r"
    by blast
  with 2 show ?thesis
    by blast
qed

lemma resolveAction_falsy:
  "\<not> ToBoolean action \<Longrightarrow> resolveAction B action v = Inr None"
  by (cases action) (simp_all add: resolveAction_def)

lemma controlOne_resolved:
  assumes "resolveAction B (body_member body ''action'') (body_member body ''value'') = Inr (Some r)"
  shows "controlOne B U calls ident body
     = (case run_ops U calls (JStr ident) (ops_of r) [] of
          (Inr results, calls') \<Rightarrow>
            (Inr (Response 200
               (JObj [(''success'', JBool True), (''id'', JStr ident),
                      (''action'', body_member body ''action''), (''results'', JArr results)])),
             calls')
        | (Inl msg, calls') \<Rightarrow>
            (Inr (Response 502
               (JObj [(''error'', JStr ''Control error''), (''message'', JStr msg)])),
             calls'))"
proof -
  from assms resolveAction_falsy [of "body_member body ''action''" B "body_member body ''value''"]
  have "ToBoolean (body_member body ''action'')"
    by auto
  with assms show ?thesis
    by (simp add: controlOne_def Let_def)
qed

text \<open>
  What the handler of one device does whenever the resolution of the action returns.
  When the action does not resolve and can be printed, the handler answers 400 with
  the error \<open>Bad Request\<close> and makes no call to the hub. When it resolves to the
  operations \<open>ops\<close>, the handler calls the hub for them one after the other in the
  resolver's order, and either every call returns, the answer is 200 with the returned
  values and the calls made are exactly those of \<open>ops\<close>; or some call \<open>k\<close> is the first
  to fail, the answer is 502 with that call's message, and the calls made are exactly
  those of the operations up to and including \<open>k\<close>: none of the later operations is
  attempted and nothing is sent to undo the earlier ones.
\<close>

lemma controlOne_dispatch:
  "(resolveAction B (body_member body ''action'') (body_member body ''value'') = Inr None
    \<and> ToString B (body_member body ''action'') = Inr s \<longrightarrow>
      (\<exists>msg. controlOne B U calls ident body
         = (Inr (Response 400 (JObj [(''error'', JStr ''Bad Request''),
                                     (''message'', JStr msg)])),
            calls)))
   \<and> (\<forall>r. resolveAction B (body_member body ''action'') (body_member body ''value'')
            = Inr (Some r) \<longrightarrow>
        (\<exists>results.
            controlOne B U calls ident body
              = (Inr (Response 200
                   (JObj [(''success'', JBool True), (''id'', JStr ident),
                          (''action'', body_member body ''action''),
                          (''results'', JArr results)])),
                 calls @ map (call_of (JStr ident)) (ops_of r))
            \<and> length results = length (ops_of r)
            \<and> (\<forall>i<length (ops_of r).
                  U (calls @ map (call_of (JStr ident)) (take i (ops_of r)))
                    (call_of (JStr ident) (ops_of r ! i)) = Inr (results ! i)))
        \<or> (\<exists>k<length (ops_of r). \<exists>msg.
              (\<forall>i<k. \<exists>x. U (calls @ map (call_of (JStr ident)) (take i (ops_of r)))
                            (call_of (JStr ident) (ops_of r ! i)) = Inr x)
              \<and> U (calls @ map (call_of (JStr ident)) (take k (ops_of r)))
                   (call_of (JStr ident) (ops_of r ! k)) = Inl msg
              \<and> controlOne B U calls ident body
                  = (Inr (Response 502
                       (JObj [(''error'', JStr ''Control error''), (''message'', JStr msg)])),
                     calls @ map (call_of (JStr ident)) (take (Suc k) (ops_of r)))))"
proof (intro conjI impI allI)
  assume "resolveAction B (body_member body ''action'') (body_member body ''value'') = Inr None
    \<and> ToString B (body_member body ''action'') = Inr s"
  then show "\<exists>msg. controlOne B U calls ident body
         = (Inr (Response 400 (JObj [(''error'', JStr ''Bad Request''),
                                     (''message'', JStr msg)])),
            calls)"
    by (simp add: controlOne_def Let_def)
next
  fix r
  assume some: "resolveAction B (body_member body ''action'') (body_member body ''value'')
                  = Inr (Some r)"
  note c = controlOne_resolved [OF some, of U calls ident]
  from run_ops_outcome [of U calls "JStr ident" "ops_of r"]
  show "(\<exists>results.
            controlOne B U calls ident body
              = (Inr (Response 200
                   (JObj [(''success'', JBool True), (''id'', JStr ident),
                          (''action'', body_member body ''action''),
                          (''results'', JArr results)])),
                 calls @ map (call_of (JStr ident)) (ops_of r))
            \<and> length results = length (ops_of r)
            \<and> (\<forall>i<length (ops_of r).
                  U (calls @ map (call_of (JStr ident)) (take i (ops_of r)))
                    (call_of (JStr ident) (ops_of r ! i)) = Inr (results ! i)))
        \<or> (\<exists>k<length (ops_of r). \<exists>msg.
              (\<forall>i<k. \<exists>x. U (calls @ map (call_of (JStr ident)) (take i (ops_of r)))
                            (call_of (JStr ident) (ops_of r ! i)) = Inr x)
              \<and> U (calls @ map (call_of (JStr ident)) (take k (ops_of r)))
                   (call_of (JStr ident) (ops_of r ! k)) = Inl msg
              \<and> controlOne B U calls ident body
                  = (Inr (Response 502
                       (JObj [(''error'', JStr ''Control error''), (''message'', JStr msg)])),
                     calls @ map (call_of (JStr ident)) (take (Suc k) (ops_of r))))"
  proof (elim disjE exE conjE)
    fix results
    assume "run_ops U calls (JStr ident) (ops_of r) []
              = (Inr results, calls @ map (call_of (JStr ident)) (ops_of r))"
      "length results = length (ops_of r)"
      "\<forall>i<length (ops_of r).
          U (calls @ map (call_of (JStr ident)) (take i (ops_of r)))
            (call_of (JStr ident) (ops_of r ! i)) = Inr (results ! i)"
    then show ?thesis
      by (intro disjI1 exI [of _ results]) (simp add: c)
  next
    fix k msg
    assume "k < length (ops_of r)"
      "\<forall>i<k. \<exists>x. U (calls @ map (call_of (JStr ident)) (take i (ops_of r)))
                    (call_of (JStr ident) (ops_of r ! i)) = Inr x"
      "U (calls @ map (call_of (JStr ident)) (take k (ops_of r)))
         (call_of (JStr ident) (ops_of r ! k)) = Inl msg"
      "run_ops U calls (JStr ident) (ops_of r) []
         = (Inl msg, calls @ map (call_of (JStr ident)) (take (Suc k) (ops_of r)))"
    then show ?thesis
      by (intro disjI2 exI [of _ k] exI [of _ msg]) (simp add: c)
  qed
qed

text \<open>
  Claim C3 fails on the code where a conversion throws before the \<open>try\<close>. For the body
  \<open>{"action": {"toString": 1}}\<close> the action does not resolve, and printing it for the
  message of the 400 response throws: the handler throws and sends no 400. For the body
  \<open>{"action": "brightness", "value": {"toString": 1}}\<close> the call of \<open>resolveAction\<close>
  throws: no operation is executed and no response of the handler is sent. In both
  cases no call to the hub is made.
\<close>

theorem controlOne_throws:
  "resolveAction B (JObj [(''toString'', JNum (Fin 1))]) JUndefined = Inr None
   \<and> controlOne B U calls ident (JObj [(''action'', JObj [(''toString'', JNum (Fin 1))])])
       = (Inl TypeError, calls)
   \<and> controlOne B U calls ident
         (JObj [(''action'', JStr ''brightness''),
                (''value'', JObj [(''toString'', JNum (Fin 1))])])
       = (Inl TypeError, calls)"
  by (simp add: controlOne_def body_member_def resolveAction_def clamp_def)

lemma batch_loop_acc:
  "batch_loop B U calls items results
     = (case batch_loop B U calls items [] of
          (Inl e, calls') \<Rightarrow> (Inl e, calls')
        | (Inr rs, calls') \<Rightarrow> (Inr (results @ rs), calls'))"
proof (induction items arbitrary: calls results)
  case Nil
  then show ?case by simp
next
  case (Cons item items)
  obtain x c1 where x: "control_item B U calls item = (x, c1)"
    by (cases "control_item B U calls item")
  show ?case
  proof (cases x)
    case (Inl e)
    with x show ?thesis by simp
  next
    case (Inr e)
    with x show ?thesis
      using Cons.IH [of c1 "results @ [e]"] Cons.IH [of c1 "[e]"]
      by (simp split: prod.splits sum.splits)
  qed
qed

lemma batch_loop_Cons:
  "batch_loop B U calls (item # items) []
     = (case control_item B U calls item of
          (Inl e, c1) \<Rightarrow> (Inl e, c1)
        | (Inr e, c1) \<Rightarrow>
            (case batch_loop B U c1 items [] of
               (Inl x, c2) \<Rightarrow> (Inl x, c2)
             | (Inr rs, c2) \<Rightarrow> (Inr (e # rs), c2)))"
proof -
  obtain x c1 where x: "control_item B U calls item = (x, c1)"
    by (cases "control_item B U calls item")
  show ?thesis
  proof (cases x)
    case (Inl e)
    with x show ?thesis by simp
  next
    case (Inr e)
    with x show ?thesis
      using batch_loop_acc [of B U c1 items "[e]"]
      by (simp split: prod.splits sum.splits)
  qed
qed

lemma batch_loop_append:
  "batch_loop B U calls xs [] = (Inr r1, c1) \<Longrightarrow>
   batch_loop B U calls (xs @ ys) []
     = (case batch_loop B U c1 ys [] of
          (Inl x, c2) \<Rightarrow> (Inl x, c2)
        | (Inr r2, c2) \<Rightarrow> (Inr (r1 @ r2), c2))"
proof (induction xs arbitrary: calls r1)
  case Nil
  then show ?case by (simp split: prod.splits sum.splits)
next
  case (Cons x xs)
  from Cons.prems obtain e c0 rs where e: "control_item B U calls x = (Inr e, c0)"
    and rs: "batch_loop B U c0 xs [] = (Inr rs, c1)" and r1: "r1 = e # rs"
    unfolding batch_loop_Cons by (auto split: prod.splits sum.splits)
  show ?case
    using Cons.IH [OF rs]
    by (simp only: append_Cons batch_loop_Cons e r1) (simp split: prod.splits sum.splits)
qed


lemma batch_loop_abort:
  assumes "batch_loop B U calls xs [] = (Inr r1, c1)"
    and "control_item B U c1 item = (Inl e, c2)"
  shows "batch_loop B U calls (xs @ item # ys) [] = (Inl e, c2)"
  by (simp only: batch_loop_append [OF assms(1)] batch_loop_Cons assms prod.case sum.case)






lemma controlBatch_throws:
  "controlBatch B U calls (JObj [(''devices'', JArr items)]) = (Inl e, calls')
   \<longleftrightarrow> batch_loop B U calls items [] = (Inl e, calls')"
proof -
  obtain x c where x: "batch_loop B U calls items [] = (x, c)"
    by (cases "batch_loop B U calls items []")
  show ?thesis
    by (cases x) (simp_all add: controlBatch_def body_member_def x)
qed


text \<open>
  An element of the batch on which the resolution throws ends the handler: the entries
  collected so far are not sent and the elements after it are not processed. Here the
  second element is \<open>null\<close>.
\<close>

lemma controlBatch_abort_example:
  "controlBatch B (\<lambda>h c. Inr JNull) []
     (JObj [(''devices'',
             JArr [JObj [(''id'', JStr ''a''), (''action'', JStr ''on''),
                         (''value'', JBool True)],
                   JNull,
                   JObj [(''id'', JStr ''c''), (''action'', JStr ''on''),
                         (''value'', JBool True)]])])
   = (Inl TypeError, [(JStr ''a'', ''On'', JBool True)])"
  by (simp add: controlBatch_def body_member_def control_item_def resolveAction_def
      uiClient_setCharacteristic_def)

lemma ToString_primitive:
  "primitive v \<Longrightarrow> \<exists>s. ToString B v = Inr s"
  by (cases v) simp_all

lemma ToNumber_primitive:
  "primitive v \<Longrightarrow> \<exists>n. ToNumber B v = Inr n"
  by (cases v) simp_all

lemma opt_member_primitive:
  "primitive v \<Longrightarrow> opt_member v k = JUndefined"
  by (cases v) simp_all

lemma resolveAction_primitive:
  assumes "primitive v"
  shows "\<exists>r. resolveAction B action v = Inr r"
proof (cases action)
  case (JStr a)
  from ToNumber_primitive [OF assms, of B] obtain n where n: "ToNumber B v = Inr n"
    by blast
  from ToString_primitive [OF assms, of B] obtain s where s: "ToString B v = Inr s"
    by blast
  note m = opt_member_primitive [OF assms]
  show ?thesis
    by (simp add: JStr resolveAction_def clamp_def Let_def n s m)
qed (simp_all add: resolveAction_def)

text \<open>
  The resolution returns for every element that is an object whose members \<open>action\<close>
  and \<open>value\<close> are absent or are \<open>null\<close>, booleans, numbers or strings.
\<close>

lemma resolution_returns_primitive:
  assumes "primitive (opt_member (JObj fs) ''action'')"
    and "primitive (opt_member (JObj fs) ''value'')"
  shows "resolution_returns B (JObj fs)"
proof -
  from resolveAction_primitive [OF assms(2), of B "opt_member (JObj fs) ''action''"]
  obtain r where r: "resolveAction B (opt_member (JObj fs) ''action'')
                       (opt_member (JObj fs) ''value'') = Inr r"
    by blast
  from ToString_primitive [OF assms(1), of B]
  obtain s where s: "ToString B (opt_member (JObj fs) ''action'') = Inr s"
    by blast
  have "member (JObj fs) ''action'' = Inr (opt_member (JObj fs) ''action'')"
    by simp
  with r s show ?thesis
    by (cases r) (simp_all add: resolution_returns_def del: opt_member.simps)
qed



section \<open>Properties of token resolution\<close>

lemma truthy_layer_env: "truthy_str env \<longleftrightarrow> layer_env env \<noteq> None"
  by (cases env) (simp_all add: layer_env_def)

lemma layer_env_Some: "layer_env env = Some t \<Longrightarrow> env = Some t"
  by (cases env) (simp_all add: layer_env_def split: if_splits)

lemma truthy_layer_config:
  "truthy_str cfg \<and> length (the cfg) \<ge> 8 \<longleftrightarrow> layer_config cfg \<noteq> None"
  by (cases cfg) (auto simp: layer_config_def)

lemma layer_config_Some: "layer_config cfg = Some t \<Longrightarrow> cfg = Some t"
  by (cases cfg) (simp_all add: layer_config_def split: if_splits)

lemma seed_key_generated:
  "take 48 (createHmac_sha256_hex H (seed_key F) ''openclaw-hb-api-token'') = layer_generated H F"
  by (simp add: seed_key_def layer_generated_def split: parsed.splits option.splits)

lemma resolveApiToken_env:
  "layer_env env = Some t \<Longrightarrow> resolveApiToken H env cfg F = ((t, ''env''), F)"
  using truthy_layer_env [of env] layer_env_Some [of env t]
  by (simp add: resolveApiToken_def)

lemma resolveApiToken_file:
  "layer_env env = None \<Longrightarrow> layer_file F = Some t
     \<Longrightarrow> resolveApiToken H env cfg F = ((t, ''file''), F)"
  using truthy_layer_env [of env]
  by (auto simp: resolveApiToken_def layer_file_def Let_def split: file_state.splits if_splits)

lemma resolveApiToken_config:
  "layer_env env = None \<Longrightarrow> layer_file F = None \<Longrightarrow> layer_config cfg = Some t
     \<Longrightarrow> resolveApiToken H env cfg F = ((t, ''config''), F)"
  using truthy_layer_env [of env] truthy_layer_config [of cfg] layer_config_Some [of cfg t]
  by (auto simp: resolveApiToken_def layer_file_def Let_def split: file_state.splits if_splits)

lemma resolveApiToken_generated:
  "layer_env env = None \<Longrightarrow> layer_file F = None \<Longrightarrow> layer_config cfg = None
     \<Longrightarrow> resolveApiToken H env cfg F
          = ((layer_generated H F, ''auto''),
             if token_file_writable F
             then F\<lparr>token_file := Content (layer_generated H F @ [CHR 0x0A])\<rparr> else F)"
  using truthy_layer_env [of env] truthy_layer_config [of cfg]
  by (auto simp: resolveApiToken_def layer_file_def Let_def seed_key_generated
      split: file_state.splits if_splits)

lemma layer_generated_hex:
  assumes "hmac_ok H"
  shows "length (layer_generated H F) = 48"
    and "set (layer_generated H F) \<subseteq> set ''0123456789abcdef''"
proof -
  let ?d = "createHmac_sha256_hex H (seed_key F) ''openclaw-hb-api-token''"
  from assms have d: "length ?d = 64" "set ?d \<subseteq> set ''0123456789abcdef''"
    unfolding hmac_ok_def hex_digest_def by blast+
  have g: "layer_generated H F = take 48 ?d"
    by (simp add: seed_key_generated)
  from d(1) show "length (layer_generated H F) = 48"
    by (simp add: g)
  from d(2) set_take_subset [of 48 ?d] show "set (layer_generated H F) \<subseteq> set ''0123456789abcdef''"
    unfolding g by blast
qed

text \<open>
  Claim C1. \<open>resolveApiToken\<close> returns the token of the first layer that supplies one,
  in the order environment value (set and not empty, taken as it is), token file
  (readable, trimmed content of length at least 16), configuration value (length at
  least 8), generated value, tagged \<open>env\<close>, \<open>file\<close>, \<open>config\<close> or \<open>auto\<close> after that
  layer; it returns for every combination of sources, and a higher layer wins over the
  lower ones. The generated token is the first 48 characters of the HMAC digest, 48
  hexadecimal characters when the digest is a hexadecimal SHA-256 digest.
\<close>

theorem resolveApiToken_priority:
  "fst (resolveApiToken H env cfg F)
     = (case layer_env env of
          Some t \<Rightarrow> (t, ''env'')
        | None \<Rightarrow>
            (case layer_file F of
               Some t \<Rightarrow> (t, ''file'')
             | None \<Rightarrow>
                 (case layer_config cfg of
                    Some t \<Rightarrow> (t, ''config'')
                  | None \<Rightarrow> (layer_generated H F, ''auto''))))
   \<and> (hmac_ok H \<longrightarrow>
         length (layer_generated H F) = 48
         \<and> set (layer_generated H F) \<subseteq> set ''0123456789abcdef'')"
proof (intro conjI impI)
  show "fst (resolveApiToken H env cfg F)
     = (case layer_env env of
          Some t \<Rightarrow> (t, ''env'')
        | None \<Rightarrow>
            (case layer_file F of
               Some t \<Rightarrow> (t, ''file'')
             | None \<Rightarrow>
                 (case layer_config cfg of
                    Some t \<Rightarrow> (t, ''config'')
                  | None \<Rightarrow> (layer_generated H F, ''auto''))))"
  proof (cases "layer_env env")
    case (Some t)
    then show ?thesis by (simp add: resolveApiToken_env)
  next
    case e: None
    show ?thesis
    proof (cases "layer_file F")
      case (Some t)
      with e show ?thesis by (simp add: resolveApiToken_file)
    next
      case f: None
      show ?thesis
      proof (cases "layer_config cfg")
        case (Some t)
        with e f show ?thesis by (simp add: resolveApiToken_config)
      next
        case None
        with e f show ?thesis by (simp add: resolveApiToken_generated)
      qed
    qed
  qed
next
  assume "hmac_ok H"
  then show "length (layer_generated H F) = 48"
    by (rule layer_generated_hex)
next
  assume "hmac_ok H"
  then show "set (layer_generated H F) \<subseteq> set ''0123456789abcdef''"
    by (rule layer_generated_hex)
qed

lemma example_hmac_ok: "hmac_ok example_host"
  by (simp add: hmac_ok_def hex_digest_def example_host_def)

lemma example_generated: "layer_generated example_host F = replicate 48 (CHR ''a'')"
  by (simp add: layer_generated_def example_host_def)

theorem resolveApiToken_priority_witness:
  "hmac_ok example_host
   \<and> fst (resolveApiToken example_host (Some ''from-env'') (Some ''configured'')
        \<lparr>token_file = Content '' 0123456789abcdef '', token_file_writable = True,
           uix_secrets = Throws, auth_json = Throws\<rparr>) = (''from-env'', ''env'')
   \<and> fst (resolveApiToken example_host None (Some ''configured'')
        \<lparr>token_file = Content '' 0123456789abcdef '', token_file_writable = True,
           uix_secrets = Throws, auth_json = Throws\<rparr>) = (''0123456789abcdef'', ''file'')
   \<and> fst (resolveApiToken example_host (Some []) (Some ''configured'')
        \<lparr>token_file = Content ''short'', token_file_writable = True,
           uix_secrets = Throws, auth_json = Throws\<rparr>) = (''configured'', ''config'')
   \<and> fst (resolveApiToken example_host None (Some ''short'')
        \<lparr>token_file = Unreadable, token_file_writable = False,
           uix_secrets = Throws, auth_json = Throws\<rparr>) = (replicate 48 (CHR ''a''), ''auto'')
   \<and> length (layer_generated example_host
        \<lparr>token_file = Unreadable, token_file_writable = False,
           uix_secrets = Throws, auth_json = Throws\<rparr>) = 48"
proof -
  let ?F1 = "\<lparr>token_file = Content '' 0123456789abcdef '', token_file_writable = True,
           uix_secrets = Throws, auth_json = Throws\<rparr>"
  let ?F2 = "\<lparr>token_file = Content ''short'', token_file_writable = True,
           uix_secrets = Throws, auth_json = Throws\<rparr>"
  let ?F3 = "\<lparr>token_file = Unreadable, token_file_writable = False,
           uix_secrets = Throws, auth_json = Throws\<rparr>"
  have t1: "trim '' 0123456789abcdef '' = ''0123456789abcdef''"
    by (simp add: trim_def is_space_def)
  have t2: "trim ''short'' = ''short''"
    by (simp add: trim_def is_space_def)
  have a: "fst (resolveApiToken example_host (Some ''from-env'') (Some ''configured'') ?F1)
             = (''from-env'', ''env'')"
    using resolveApiToken_priority [of example_host "Some ''from-env''" "Some ''configured''" ?F1]
    by (simp add: layer_env_def)
  have b: "fst (resolveApiToken example_host None (Some ''configured'') ?F1)
             = (''0123456789abcdef'', ''file'')"
    using resolveApiToken_priority [of example_host None "Some ''configured''" ?F1]
    by (simp add: layer_env_def layer_file_def t1)
  have c: "fst (resolveApiToken example_host (Some []) (Some ''configured'') ?F2)
             = (''configured'', ''config'')"
    using resolveApiToken_priority [of example_host "Some []" "Some ''configured''" ?F2]
    by (simp add: layer_env_def layer_file_def layer_config_def t2)
  have d: "fst (resolveApiToken example_host None (Some ''short'') ?F3)
             = (replicate 48 (CHR ''a''), ''auto'')"
    using resolveApiToken_priority [of example_host None "Some ''short''" ?F3]
    by (simp add: layer_env_def layer_file_def layer_config_def example_generated)
  have e: "length (layer_generated example_host ?F3) = 48"
    using resolveApiToken_priority [of example_host None None ?F3] example_hmac_ok
    by blast
  from example_hmac_ok a b c d e show ?thesis
    by - (intro conjI; assumption)
qed

lemma dropWhile_none: "\<forall>c\<in>set xs. \<not> P c \<Longrightarrow> dropWhile P xs = xs"
  by (cases xs) auto

lemma trim_newline:
  assumes "\<forall>c\<in>set g. \<not> is_space c"
  shows "trim (g @ [CHR 0x0A]) = g"
proof (cases g)
  case Nil
  then show ?thesis by (simp add: trim_def is_space_def)
next
  case (Cons x xs)
  with assms have "\<not> is_space x" by simp
  with Cons have "dropWhile is_space (g @ [CHR 0x0A]) = g @ [CHR 0x0A]"
    by simp
  moreover have "is_space (CHR 0x0A)"
    by (simp add: is_space_def)
  moreover from assms have "dropWhile is_space (rev g) = rev g"
    by (intro dropWhile_none) simp
  ultimately show ?thesis
    by (simp add: trim_def)
qed

lemma hex_not_space: "c \<in> set ''0123456789abcdef'' \<Longrightarrow> \<not> is_space c"
  by (auto simp: is_space_def)

text \<open>
  Claim C5. When no layer above the fourth supplies a token and the write of the
  generated token succeeds, the call returns the generated token tagged \<open>auto\<close> and
  leaves it in the token file followed by a newline; a second pass with no environment
  value then returns the same token tagged \<open>file\<close>, whatever the configuration value
  is: the file's trimmed content is the token, of length 48, which meets the bound of
  16. The HMAC digest is assumed to be a hexadecimal SHA-256 digest.
\<close>

theorem resolveApiToken_roundtrip:
  assumes "hmac_ok H"
    and "layer_env env = None" and "layer_file F = None" and "layer_config cfg = None"
    and "token_file_writable F"
    and "layer_env env' = None"
  shows "resolveApiToken H env cfg F
           = ((layer_generated H F, ''auto''),
              F\<lparr>token_file := Content (layer_generated H F @ [CHR 0x0A])\<rparr>)
         \<and> fst (resolveApiToken H env' cfg' (snd (resolveApiToken H env cfg F)))
             = (layer_generated H F, ''file'')
         \<and> trim (layer_generated H F @ [CHR 0x0A]) = layer_generated H F
         \<and> 16 \<le> length (layer_generated H F)"
proof -
  let ?g = "layer_generated H F"
  let ?F' = "F\<lparr>token_file := Content (?g @ [CHR 0x0A])\<rparr>"
  have first: "resolveApiToken H env cfg F = ((?g, ''auto''), ?F')"
    using assms(2-5) by (simp add: resolveApiToken_generated)
  from layer_generated_hex [OF assms(1), of F]
  have len: "length ?g = 48" and hex: "set ?g \<subseteq> set ''0123456789abcdef''"
    by simp_all
  from hex have "\<forall>c\<in>set ?g. \<not> is_space c"
    using hex_not_space by blast
  then have tr: "trim (?g @ [CHR 0x0A]) = ?g"
    by (rule trim_newline)
  with len have "layer_file ?F' = Some ?g"
    by (simp add: layer_file_def)
  with assms(6) have "resolveApiToken H env' cfg' ?F' = ((?g, ''file''), ?F')"
    by (rule resolveApiToken_file)
  with first tr len show ?thesis
    by simp
qed

theorem resolveApiToken_roundtrip_witness:
  "hmac_ok example_host
   \<and> layer_env None = None
   \<and> layer_file \<lparr>token_file = Missing, token_file_writable = True,
                   uix_secrets = Got (Some ''key''), auth_json = Throws\<rparr> = None
   \<and> layer_config (Some ''short'') = None
   \<and> token_file_writable \<lparr>token_file = Missing, token_file_writable = True,
                   uix_secrets = Got (Some ''key''), auth_json = Throws\<rparr>
   \<and> resolveApiToken example_host None (Some ''short'')
        \<lparr>token_file = Missing, token_file_writable = True,
           uix_secrets = Got (Some ''key''), auth_json = Throws\<rparr>
       = ((replicate 48 (CHR ''a''), ''auto''),
          \<lparr>token_file = Content (replicate 48 (CHR ''a'') @ [CHR 0x0A]),
             token_file_writable = True,
             uix_secrets = Got (Some ''key''), auth_json = Throws\<rparr>)
   \<and> fst (resolveApiToken example_host None None
        (snd (resolveApiToken example_host None (Some ''short'')
           \<lparr>token_file = Missing, token_file_writable = True,
              uix_secrets = Got (Some ''key''), auth_json = Throws\<rparr>)))
       = (replicate 48 (CHR ''a''), ''file'')"
proof -
  let ?F = "\<lparr>token_file = Missing, token_file_writable = True,
              uix_secrets = Got (Some ''key''), auth_json = Throws\<rparr>"
  have a: "layer_env None = None"
    by (simp add: layer_env_def)
  have b: "layer_file ?F = None"
    by (simp add: layer_file_def)
  have c: "layer_config (Some ''short'') = None"
    by (simp add: layer_config_def)
  have d: "token_file_writable ?F"
    by simp
  note r = resolveApiToken_roundtrip [OF example_hmac_ok a b c d a, of None,
      unfolded example_generated]
  have e: "F\<lparr>token_file := x\<rparr> = \<lparr>token_file = x, token_file_writable = token_file_writable F,
      uix_secrets = uix_secrets F, auth_json = auth_json F\<rparr>" for F :: files and x
    by simp
  from example_hmac_ok a b c d conjunct1 [OF r, unfolded e] conjunct1 [OF conjunct2 [OF r]]
  show ?thesis
    by simp
qed

section \<open>Properties of the client\<close>

lemma truthy_or_null: "truthy_str (or_null x) = truthy_str x"
  by (simp add: or_null_def)

lemma UiClient_new_authMode:
  "authMode (UiClient_new H F url usr pass)
     = (if shared_secret F \<noteq> None \<and> admin_username F \<noteq> None then ''jwt-direct''
        else if truthy_str usr \<and> truthy_str pass then ''login''
        else ''none'')"
proof -
  let ?this = "\<lparr> baseUrl = strip_trailing_slashes (or_else url DEFAULT_UI_URL),
         uiUser = or_null usr, uiPass = or_null pass, jwt = None, jwtExpires = 0,
         secretKey = None, adminUser = None, instanceId = None, authMode = ''none'' \<rparr>"
  let ?this1 = "(case uix_secrets F of
               Throws \<Rightarrow> ?this
             | Got k \<Rightarrow>
                 if truthy_str k
                 then ?this\<lparr>secretKey := k,
                           instanceId := Some (createHash_sha256_hex H (the k))\<rparr>
                 else ?this)"
  let ?this2 = "(case auth_json F of
               Throws \<Rightarrow> ?this1
             | Got users \<Rightarrow>
                 (let found = (case users of Users us \<Rightarrow> find admin us | NotArray \<Rightarrow> None)
                  in case found of
                       None \<Rightarrow> ?this1
                     | Some u \<Rightarrow> ?this1\<lparr>adminUser := username u\<rparr>))"
  have s1: "truthy_str (secretKey ?this1) = (shared_secret F \<noteq> None)"
    "adminUser ?this1 = None" "uiUser ?this1 = or_null usr" "uiPass ?this1 = or_null pass"
    "authMode ?this1 = ''none''"
    by (auto simp: shared_secret_def split: parsed.splits option.splits)
  have s2: "truthy_str (secretKey ?this2) = (shared_secret F \<noteq> None)"
    "truthy_str (adminUser ?this2) = (admin_username F \<noteq> None)"
    "uiUser ?this2 = or_null usr" "uiPass ?this2 = or_null pass"
    "authMode ?this2 = ''none''"
    using s1
    by (auto simp: admin_username_def Let_def split: parsed.splits option.splits users_doc.splits)
  have "UiClient_new H F url usr pass
          = (if truthy_str (secretKey ?this2) \<and> truthy_str (adminUser ?this2)
             then ?this2\<lparr>authMode := ''jwt-direct''\<rparr>
             else if truthy_str (uiUser ?this2) \<and> truthy_str (uiPass ?this2)
             then ?this2\<lparr>authMode := ''login''\<rparr>
             else ?this2)"
    by (simp add: UiClient_new_def UiClient_detectAuthMode_def Let_def)
  then show ?thesis
    by (simp add: s2 truthy_or_null)
qed

lemma loginAuth_authMode:
  "authMode (fst (snd (UiClient_loginAuth H this w))) = authMode this"
  by (simp add: UiClient_loginAuth_def Let_def split: fetch_result.splits sum.splits prod.splits)

lemma UiClient_token_authMode:
  "authMode (fst (snd (UiClient_token H this w))) = authMode this"
proof -
  have l: "authMode this' = authMode this"
    if "UiClient_loginAuth H this w1 = (r, this', w2)" for r this' w1 w2
    using loginAuth_authMode [of H this w1] that by simp
  show ?thesis
    by (auto simp: UiClient_token_def Let_def l split: prod.splits sum.splits)
qed

lemma UiClient_token_none:
  "authMode this = ''none'' \<Longrightarrow>
     UiClient_token H this w
       = (Inl ''No authentication method available for Config UI X.'', this, w)"
  by (simp add: UiClient_token_def)

text \<open>
  Claim C2. The mode set by the constructor is \<open>jwt-direct\<close> whenever the secret material
  offers a secret key and an administrator username, whatever username and password
  are declared; otherwise \<open>login\<close> when both a username and a password are declared;
  otherwise \<open>none\<close>. \<open>token()\<close> never changes the mode, and in mode \<open>none\<close> every call
  of it throws and leaves the client and the world as they were.
\<close>

theorem UiClient_authMode:
  "authMode (UiClient_new H F url usr pass)
     = (if shared_secret F \<noteq> None \<and> admin_username F \<noteq> None then ''jwt-direct''
        else if truthy_str usr \<and> truthy_str pass then ''login''
        else ''none'')
   \<and> authMode (fst (snd (UiClient_token H this w))) = authMode this
   \<and> (authMode this = ''none'' \<longrightarrow>
         UiClient_token H this w
           = (Inl ''No authentication method available for Config UI X.'', this, w))"
  using UiClient_new_authMode [of H F url usr pass] UiClient_token_authMode [of H this w]
    UiClient_token_none [of this H w]
  by blast

theorem UiClient_authMode_witness:
  "authMode (UiClient_new example_host
       \<lparr>token_file = Missing, token_file_writable = True,
          uix_secrets = Got (Some ''key''),
          auth_json = Got (Users [\<lparr>username = Some ''guest'', admin = False\<rparr>,
                                  \<lparr>username = Some ''root'', admin = True\<rparr>])\<rparr>
       None (Some ''user'') (Some ''secret'')) = ''jwt-direct''
   \<and> authMode (UiClient_new example_host
       \<lparr>token_file = Missing, token_file_writable = True,
          uix_secrets = Throws, auth_json = Throws\<rparr>
       None (Some ''user'') (Some ''secret'')) = ''login''
   \<and> authMode (UiClient_new example_host
       \<lparr>token_file = Missing, token_file_writable = True,
          uix_secrets = Got (Some ''key''), auth_json = Throws\<rparr>
       None (Some ''user'') None) = ''none''
   \<and> UiClient_token example_host
        (UiClient_new example_host
           \<lparr>token_file = Missing, token_file_writable = True,
              uix_secrets = Got (Some ''key''), auth_json = Throws\<rparr>
           None (Some ''user'') None)
        \<lparr>clock_reads = 0, sent = []\<rparr>
       = (Inl ''No authentication method available for Config UI X.'',
          UiClient_new example_host
            \<lparr>token_file = Missing, token_file_writable = True,
               uix_secrets = Got (Some ''key''), auth_json = Throws\<rparr>
            None (Some ''user'') None,
          \<lparr>clock_reads = 0, sent = []\<rparr>)"
proof -
  let ?F1 = "\<lparr>token_file = Missing, token_file_writable = True,
          uix_secrets = Got (Some ''key''),
          auth_json = Got (Users [\<lparr>username = Some ''guest'', admin = False\<rparr>,
                                  \<lparr>username = Some ''root'', admin = True\<rparr>])\<rparr>"
  let ?F2 = "\<lparr>token_file = Missing, token_file_writable = True,
          uix_secrets = Throws, auth_json = Throws\<rparr>"
  let ?F3 = "\<lparr>token_file = Missing, token_file_writable = True,
              uix_secrets = Got (Some ''key''), auth_json = Throws\<rparr>"
  let ?c = "UiClient_new example_host ?F3 None (Some ''user'') None"
  let ?w = "\<lparr>clock_reads = 0, sent = []\<rparr>"
  have a: "authMode (UiClient_new example_host ?F1 None (Some ''user'') (Some ''secret''))
             = ''jwt-direct''"
    using UiClient_authMode [of example_host ?F1 None "Some ''user''" "Some ''secret''"]
    by (simp add: shared_secret_def admin_username_def)
  have b: "authMode (UiClient_new example_host ?F2 None (Some ''user'') (Some ''secret''))
             = ''login''"
    using UiClient_authMode [of example_host ?F2 None "Some ''user''" "Some ''secret''"]
    by (simp add: shared_secret_def admin_username_def)
  have c: "authMode ?c = ''none''"
    using UiClient_authMode [of example_host ?F3 None "Some ''user''" None]
    by (simp add: shared_secret_def admin_username_def)
  from UiClient_authMode [of example_host ?F3 None "Some ''user''" None ?c ?w] c
  have d: "UiClient_token example_host ?c ?w
             = (Inl ''No authentication method available for Config UI X.'', ?c, ?w)"
    by blast
  from a b c d show ?thesis
    by - (intro conjI; assumption)
qed

end
